theory Spec2Isabelle
  imports Complex_Main "HOL-Library.Word" "HOL-Library.Sublist"
begin

unbundle bit_operations_syntax

section \<open>JavaScript values used by the retrieval services\<close>

text \<open>
  The services compute with JavaScript numbers. In the scoring, ranking and fallback
  services a finite number is idealised as a \<^typ>\<open>real\<close> (no rounding, no overflow);
  the local embedding, whose norm depends on rounding, is computed in double arithmetic
  in its own section. The two non-finite outcomes the code can produce without overflow
  are kept apart: \<open>NaN\<close>, and \<open>Undefined\<close> for a missing array element or a missing
  property, which arithmetic coerces to \<open>NaN\<close>.
  Embedding vectors are stored as JSON (\<open>jsonb\<close>) or computed from finite numbers, so a
  vector is a \<^typ>\<open>real list\<close>.
\<close>

datatype jsval = Num real | NaN | Undefined

fun to_number :: "jsval \<Rightarrow> real option" where
  "to_number (Num x) = Some x"
| "to_number NaN = None"
| "to_number Undefined = None"

definition js_add :: "jsval \<Rightarrow> jsval \<Rightarrow> jsval" where
  "js_add a b = (case (to_number a, to_number b) of (Some x, Some y) \<Rightarrow> Num (x + y) | _ \<Rightarrow> NaN)"

definition js_sub :: "jsval \<Rightarrow> jsval \<Rightarrow> jsval" where
  "js_sub a b = (case (to_number a, to_number b) of (Some x, Some y) \<Rightarrow> Num (x - y) | _ \<Rightarrow> NaN)"

definition js_mul :: "jsval \<Rightarrow> jsval \<Rightarrow> jsval" where
  "js_mul a b = (case (to_number a, to_number b) of (Some x, Some y) \<Rightarrow> Num (x * y) | _ \<Rightarrow> NaN)"

text \<open>Division by a finite divisor that the caller has tested to be non-zero.\<close>

definition js_div_by :: "jsval \<Rightarrow> real \<Rightarrow> jsval" where
  "js_div_by a d = (case to_number a of Some x \<Rightarrow> Num (x / d) | None \<Rightarrow> NaN)"

text \<open>\<open>a >= b\<close> and \<open>a > b\<close>: false as soon as one side is not a number.\<close>

definition js_ge :: "jsval \<Rightarrow> jsval \<Rightarrow> bool" where
  "js_ge a b = (case (to_number a, to_number b) of (Some x, Some y) \<Rightarrow> x \<ge> y | _ \<Rightarrow> False)"

definition js_gt :: "jsval \<Rightarrow> jsval \<Rightarrow> bool" where
  "js_gt a b = (case (to_number a, to_number b) of (Some x, Some y) \<Rightarrow> x > y | _ \<Rightarrow> False)"

text \<open>\<open>b[i]\<close>: reading past the end of an array gives \<open>undefined\<close>.\<close>

definition js_index :: "real list \<Rightarrow> nat \<Rightarrow> jsval" where
  "js_index b i = (if i < length b then Num (b ! i) else Undefined)"

subsection \<open>Arrays: \<open>sort\<close> and \<open>slice\<close>\<close>

text \<open>
  \<open>Array.prototype.sort(cmp)\<close> is stable; an element moves behind another one only when
  the comparator's result is a number greater than zero (a \<open>NaN\<close> result counts as \<open>+0\<close>).
  It is modelled by the stable insertion sort that the comparator drives.
\<close>

fun js_insert :: "('a \<Rightarrow> 'a \<Rightarrow> jsval) \<Rightarrow> 'a \<Rightarrow> 'a list \<Rightarrow> 'a list" where
  "js_insert cmp x [] = [x]"
| "js_insert cmp x (y # ys) =
     (if js_gt (cmp x y) (Num 0) then y # js_insert cmp x ys else x # y # ys)"

definition js_sort :: "('a \<Rightarrow> 'a \<Rightarrow> jsval) \<Rightarrow> 'a list \<Rightarrow> 'a list" where
  "js_sort cmp xs = foldr (js_insert cmp) xs []"

text \<open>
  \<open>xs.slice(0, end)\<close> for an integral \<open>end\<close>: a negative \<open>end\<close> counts from the end of
  the array.
\<close>

definition js_slice0 :: "'a list \<Rightarrow> int \<Rightarrow> 'a list" where
  "js_slice0 xs e = (if e < 0 then take (nat (int (length xs) + e)) xs else take (nat e) xs)"

subsection \<open>Strings\<close>

text \<open>
  Strings are taken over the code units below 256 (read as Latin-1), which is what
  \<^typ>\<open>char\<close> holds. \<open>toLowerCase\<close> adds 32 to an upper-case letter, that is, it sets
  bit \<open>0x20\<close>, which is clear in every upper-case code.
\<close>

definition lower_char :: "char \<Rightarrow> char" where
  "lower_char c = (case c of Char b0 b1 b2 b3 b4 b5 b6 b7 \<Rightarrow>
     (let n = of_char c :: nat in
      if (65 \<le> n \<and> n \<le> 90) \<or> (192 \<le> n \<and> n \<le> 222 \<and> n \<noteq> 215)
      then Char b0 b1 b2 b3 b4 True b6 b7 else c))"

definition toLowerCase :: "string \<Rightarrow> string" where
  "toLowerCase s = map lower_char s"

text \<open>\<open>s.includes(sub)\<close>: \<open>sub\<close> occurs in \<open>s\<close> as a contiguous substring.\<close>

fun includes' :: "string \<Rightarrow> string \<Rightarrow> bool" where
  "includes' [] sub = (sub = [])"
| "includes' (c # cs) sub = (prefix sub (c # cs) \<or> includes' cs sub)"

text \<open>The white space of the regular expression \<open>\s\<close> among the codes below 256.\<close>

definition is_space :: "char \<Rightarrow> bool" where
  "is_space c = (of_char c \<in> {9, 10, 11, 12, 13, 32, 160 :: nat})"

text \<open>
  \<open>s.split(/\s+/)\<close>: the pieces between the maximal runs of white space. A run at the
  start or at the end leaves an empty piece there, and the result is never empty.
  \<open>cur\<close> is the piece being read, in reverse; \<open>inrun\<close> tells that the previous
  character was white space.
\<close>

fun split_from :: "string \<Rightarrow> bool \<Rightarrow> string \<Rightarrow> string list" where
  "split_from cur inrun [] = [rev cur]"
| "split_from cur inrun (c # cs) =
     (if is_space c
      then (if inrun then split_from cur True cs else rev cur # split_from [] True cs)
      else split_from (c # cur) False cs)"

definition split_ws :: "string \<Rightarrow> string list" where
  "split_ws s = split_from [] False s"

text \<open>Decimal digits of a natural number, as a template literal prints a count.\<close>

definition digit :: "nat \<Rightarrow> char" where
  "digit d = ''0123456789'' ! d"

fun show_nat :: "nat \<Rightarrow> string" where
  "show_nat n = (if n < 10 then [digit n] else show_nat (n div 10) @ [digit (n mod 10)])"

declare show_nat.simps [simp del]

text \<open>\<open>parts.join(sep)\<close>\<close>

fun join :: "string \<Rightarrow> string list \<Rightarrow> string" where
  "join sep [] = []"
| "join sep [x] = x"
| "join sep (x # y # ys) = x @ sep @ join sep (y # ys)"

section \<open>Data model (\<open>shared/schema.ts\<close>)\<close>

datatype doc_type = Transcript | Policy

fun type_name :: "doc_type \<Rightarrow> string" where
  "type_name Transcript = ''transcript''"
| "type_name Policy = ''policy''"

record metadata =
  documentId :: int
  documentName :: string
  type :: doc_type
  chunkIndex :: int

record vector_chunk =
  id' :: string
  text' :: string
  embedding :: "real list"
  metadata :: metadata

text \<open>\<open>VectorChunk & { similarity: number }\<close>\<close>

record scored_chunk = vector_chunk +
  similarity :: jsval

text \<open>\<open>{ ...chunk, similarity: s }\<close>\<close>

definition with_similarity :: "vector_chunk \<Rightarrow> jsval \<Rightarrow> scored_chunk" where
  "with_similarity chunk s = vector_chunk.extend chunk \<lparr>similarity = s\<rparr>"

record source =
  src_documentName :: string
  src_chunkId :: string
  src_text :: string
  src_type :: doc_type
  src_similarity :: jsval

record rag_response =
  answer :: string
  sources :: "source list"
  reasoning :: string

section \<open>Similarity scoring and ranking\<close>

subsection \<open>\<open>DemoVectorService\<close>\<close>

text \<open>
  The loop of \<open>cosineSimilarity\<close>: the accumulators are \<open>(dotProduct, normA, normB)\<close>.
  It runs only after the test that the lengths are equal, so \<open>a[i]\<close> and \<open>b[i]\<close> are
  read together.
\<close>

fun cosine_loop :: "real list \<Rightarrow> real list \<Rightarrow> real \<times> real \<times> real \<Rightarrow> real \<times> real \<times> real" where
  "cosine_loop (x # xs) (y # ys) (dotProduct, normA, normB) =
     cosine_loop xs ys (dotProduct + x * y, normA + x * x, normB + y * y)"
| "cosine_loop _ _ acc = acc"

definition cosineSimilarity_Demo :: "real list \<Rightarrow> real list \<Rightarrow> jsval" where
  "cosineSimilarity_Demo a b =
     (if length a \<noteq> length b then Num 0
      else (case cosine_loop a b (0, 0, 0) of (dotProduct, normA, normB) \<Rightarrow>
        (let magnitude = sqrt normA * sqrt normB
         in if magnitude > 0 then Num (dotProduct / magnitude) else Num 0)))"

text \<open>The comparator \<open>(a, b) => b.similarity - a.similarity\<close>.\<close>

definition by_similarity_desc :: "scored_chunk \<Rightarrow> scored_chunk \<Rightarrow> jsval" where
  "by_similarity_desc a b = js_sub (similarity b) (similarity a)"

definition findSimilarChunks_Demo ::
  "real list \<Rightarrow> vector_chunk list \<Rightarrow> int \<Rightarrow> real \<Rightarrow> scored_chunk list" where
  "findSimilarChunks_Demo queryEmbedding chunks topK threshold =
     (let similarities =
        map (\<lambda>chunk. with_similarity chunk (cosineSimilarity_Demo queryEmbedding (embedding chunk))) chunks
      in js_slice0
           (js_sort by_similarity_desc
              (filter (\<lambda>item. js_ge (similarity item) (Num threshold)) similarities))
           topK)"

definition findSimilarChunksByType_Demo ::
  "real list \<Rightarrow> vector_chunk list \<Rightarrow> doc_type \<Rightarrow> int \<Rightarrow> real \<Rightarrow> scored_chunk list" where
  "findSimilarChunksByType_Demo queryEmbedding chunks ty topK threshold =
     (let filteredChunks = filter (\<lambda>chunk. type (metadata chunk) = ty) chunks
      in findSimilarChunks_Demo queryEmbedding filteredChunks topK threshold)"

subsection \<open>\<open>VectorService\<close>\<close>

text \<open>\<open>a.reduce((sum, val, i) => sum + val * b[i], 0)\<close>, from index \<open>i\<close> on.\<close>

fun dot_reduce :: "real list \<Rightarrow> real list \<Rightarrow> nat \<Rightarrow> jsval \<Rightarrow> jsval" where
  "dot_reduce [] b i acc = acc"
| "dot_reduce (val # a) b i acc =
     dot_reduce a b (Suc i) (js_add acc (js_mul (Num val) (js_index b i)))"

text \<open>\<open>a.reduce((sum, val) => sum + val * val, 0)\<close>\<close>

definition sum_squares :: "real list \<Rightarrow> real" where
  "sum_squares a = foldl (\<lambda>acc val. acc + val * val) 0 a"

definition cosineSimilarity_Vector :: "real list \<Rightarrow> real list \<Rightarrow> jsval" where
  "cosineSimilarity_Vector a b =
     (let dotProduct = dot_reduce a b 0 (Num 0);
          magnitudeA = sqrt (sum_squares a);
          magnitudeB = sqrt (sum_squares b)
      in if magnitudeA = 0 \<or> magnitudeB = 0 then Num 0
         else js_div_by dotProduct (magnitudeA * magnitudeB))"

definition findSimilarChunks_Vector ::
  "real list \<Rightarrow> vector_chunk list \<Rightarrow> int \<Rightarrow> real \<Rightarrow> scored_chunk list" where
  "findSimilarChunks_Vector queryEmbedding chunks topK threshold =
     (let similarities =
        map (\<lambda>chunk. with_similarity chunk (cosineSimilarity_Vector queryEmbedding (embedding chunk))) chunks
      in js_slice0
           (js_sort by_similarity_desc
              (filter (\<lambda>item. js_ge (similarity item) (Num threshold)) similarities))
           topK)"

definition findSimilarChunksByType_Vector ::
  "real list \<Rightarrow> vector_chunk list \<Rightarrow> doc_type \<Rightarrow> int \<Rightarrow> real \<Rightarrow> scored_chunk list" where
  "findSimilarChunksByType_Vector queryEmbedding chunks ty topK threshold =
     (let filteredChunks = filter (\<lambda>chunk. type (metadata chunk) = ty) chunks
      in findSimilarChunks_Vector queryEmbedding filteredChunks topK threshold)"

subsection \<open>\<open>EnhancedRAGService\<close> (private copies)\<close>

text \<open>The private \<open>cosineSimilarity\<close> has the same text as \<open>VectorService\<close>'s.\<close>

definition cosineSimilarity_Enhanced :: "real list \<Rightarrow> real list \<Rightarrow> jsval" where
  "cosineSimilarity_Enhanced a b =
     (let dotProduct = dot_reduce a b 0 (Num 0);
          magnitudeA = sqrt (sum_squares a);
          magnitudeB = sqrt (sum_squares b)
      in if magnitudeA = 0 \<or> magnitudeB = 0 then Num 0
         else js_div_by dotProduct (magnitudeA * magnitudeB))"

text \<open>The private ranker has the threshold \<open>0.3\<close> built in.\<close>

definition findSimilarChunksByType_Enhanced ::
  "real list \<Rightarrow> vector_chunk list \<Rightarrow> doc_type \<Rightarrow> int \<Rightarrow> scored_chunk list" where
  "findSimilarChunksByType_Enhanced queryEmbedding chunks ty topK =
     (let filteredChunks = filter (\<lambda>chunk. type (metadata chunk) = ty) chunks;
          similarities =
            map (\<lambda>chunk. with_similarity chunk (cosineSimilarity_Enhanced queryEmbedding (embedding chunk)))
              filteredChunks
      in js_slice0
           (js_sort by_similarity_desc
              (filter (\<lambda>item. js_ge (similarity item) (Num (3 / 10))) similarities))
           topK)"

subsection \<open>Fusion of the two ranked lists\<close>

text \<open>
  \<open>[...transcriptChunks, ...policyChunks].sort((a, b) => b.similarity - a.similarity).slice(0, 8)\<close>,
  as both \<open>RAGService.generateRAGResponse\<close> and
  \<open>EnhancedRAGService.processQueryWithFallbacks\<close> compute it.
\<close>

definition allRelevantChunks :: "scored_chunk list \<Rightarrow> scored_chunk list \<Rightarrow> scored_chunk list" where
  "allRelevantChunks transcriptChunks policyChunks =
     js_slice0 (js_sort by_similarity_desc (transcriptChunks @ policyChunks)) 8"

text \<open>
  The fusion in the words of the specification: concatenate, sort stably in descending
  order of similarity, keep the first eight. \<open>similarity_value\<close> reads a similarity that is a number.
\<close>

definition similarity_value :: "scored_chunk \<Rightarrow> real" where
  "similarity_value c = (case similarity c of Num x \<Rightarrow> x | _ \<Rightarrow> 0)"

definition fuse_spec :: "scored_chunk list \<Rightarrow> scored_chunk list \<Rightarrow> scored_chunk list" where
  "fuse_spec transcriptChunks policyChunks =
     take 8 (sort_key (\<lambda>c. - similarity_value c) (transcriptChunks @ policyChunks))"

section \<open>The deterministic local embedding (\<open>DemoVectorService\<close>)\<close>

subsection \<open>Double arithmetic\<close>

text \<open>
  The norm of the embedding depends on rounding, so this section computes as the code
  does, in IEEE 754 doubles. A double is the real number it denotes, and every arithmetic
  operation returns \<open>fl\<close> of its exact result: the nearest number with a 53-bit
  significand, ties going to the even significand. \<open>Math.sqrt\<close> is rounded in the same way.
  The exponent range is not limited here: the quantities of \<open>generateSingleEmbedding\<close>
  (weights \<open>1 / (index + 1)\<close> with \<open>index < 2^53\<close>, their sums, squares and quotients) lie
  between \<open>2^-200\<close> and \<open>2^200\<close>, far inside the range of normal doubles, where no
  overflow or underflow occurs.
\<close>

text \<open>Rounding a real to the nearest integer, ties to even.\<close>

definition rne :: "real \<Rightarrow> int" where
  "rne y = (let f = \<lfloor>y\<rfloor> in
     if y - of_int f < 1 / 2 then f
     else if y - of_int f > 1 / 2 then f + 1
     else if even f then f else f + 1)"

text \<open>
  Rounding to a double: for \<open>2^e \<le> |x| < 2^(e+1)\<close> the doubles around \<open>x\<close> are the
  multiples of \<open>2^(e-52)\<close>.
\<close>

definition fl :: "real \<Rightarrow> real" where
  "fl x = (if x = 0 then 0
           else (let e = \<lfloor>log 2 \<bar>x\<bar>\<rfloor>
                 in of_int (rne (x / 2 powr (of_int e - 52))) * 2 powr (of_int e - 52)))"



subsection \<open>\<open>generateSingleEmbedding\<close>\<close>

text \<open>
  \<open>simpleHash\<close>: \<open>hash << 5\<close> and \<open>hash & hash\<close> work on 32-bit two's complement
  integers, so the loop computes \<open>31 * hash + char\<close> in \<^typ>\<open>32 word\<close>; \<open>Math.abs\<close>
  is taken of the signed value.
\<close>

definition simpleHash :: "string \<Rightarrow> nat" where
  "simpleHash str =
     nat \<bar>sint (fold (\<lambda>c hash. (push_bit 5 hash - hash) + of_nat (of_char c)) str (0 :: 32 word))\<bar>"

text \<open>\<open>embedding[i] += v\<close>\<close>

definition add_at :: "real list \<Rightarrow> nat \<Rightarrow> real \<Rightarrow> real list" where
  "add_at emb i v = emb[i := fl (emb ! i + v)]"

text \<open>
  \<open>words.forEach((word, index) => { const hash = simpleHash(word) % 384;
  embedding[hash] += 1 / (index + 1) })\<close>, from position \<open>index\<close> on.
\<close>

fun add_words :: "string list \<Rightarrow> nat \<Rightarrow> real list \<Rightarrow> real list" where
  "add_words [] index emb = emb"
| "add_words (word # ws) index emb =
     add_words ws (Suc index) (add_at emb (simpleHash word mod 384) (fl (1 / real (index + 1))))"

text \<open>\<open>if (text.includes(k1) || text.includes(k2)) embedding[i] += v\<close>\<close>

definition boost :: "string \<Rightarrow> string \<Rightarrow> string \<Rightarrow> nat \<Rightarrow> real \<Rightarrow> real list \<Rightarrow> real list" where
  "boost text k1 k2 i v emb =
     (if includes' text k1 \<or> includes' text k2 then add_at emb i v else emb)"


text \<open>\<open>embedding.reduce((sum, val) => sum + val * val, 0)\<close>, in doubles.\<close>

definition sum_squares_fl :: "real list \<Rightarrow> real" where
  "sum_squares_fl emb = foldl (\<lambda>acc val. fl (acc + fl (val * val))) 0 emb"

text \<open>
  \<open>const magnitude = Math.sqrt(embedding.reduce((sum, val) => sum + val * val, 0));
  return embedding.map(val => magnitude > 0 ? val / magnitude : 0)\<close>
\<close>

definition normalize :: "real list \<Rightarrow> real list" where
  "normalize emb =
     (let magnitude = fl (sqrt (sum_squares_fl emb))
      in map (\<lambda>val. if magnitude > 0 then fl (val / magnitude) else 0) emb)"





section \<open>Keyword scoring (\<open>DemoProcessor.findRelevantChunks\<close>)\<close>

text \<open>The score of one chunk, as the body of \<open>chunks.map(chunk => ...)\<close> computes it.\<close>

definition chunk_score :: "string \<Rightarrow> vector_chunk \<Rightarrow> real" where
  "chunk_score query chunk =
     (let queryWords = split_ws (toLowerCase query);
          chunkText = toLowerCase (text' chunk);
          score = fold (\<lambda>word score. if includes' chunkText word then score + 3 / 10 else score)
                    queryWords 0;
          score =
            (if includes' (toLowerCase query) ''work stress'' \<or> includes' (toLowerCase query) ''stress''
             then (if includes' chunkText ''stress'' \<or> includes' chunkText ''work'' \<or>
                      includes' chunkText ''taxes'' \<or> includes' chunkText ''money''
                   then score + 4 / 10 else score)
             else score);
          score =
            (if includes' (toLowerCase query) ''nathan''
             then (if includes' (toLowerCase (documentName (metadata chunk))) ''nathan''
                   then score + 5 / 10 else score)
             else score);
          score =
            (if includes' (toLowerCase query) ''robert''
             then (if includes' (toLowerCase (documentName (metadata chunk))) ''robert''
                   then score + 5 / 10 else score)
             else score)
      in min score (95 / 100))"

definition findRelevantChunks :: "string \<Rightarrow> vector_chunk list \<Rightarrow> scored_chunk list" where
  "findRelevantChunks query chunks =
     (let scoredChunks = map (\<lambda>chunk. with_similarity chunk (Num (chunk_score query chunk))) chunks
      in js_slice0
           (js_sort by_similarity_desc
              (filter (\<lambda>chunk. js_gt (similarity chunk) (Num (2 / 10))) scoredChunks))
           5)"

section \<open>Predicates and sample data used in the statements\<close>

text \<open>Every similarity in the list is a number (neither \<open>NaN\<close> nor \<open>undefined\<close>).\<close>

fun is_num :: "jsval \<Rightarrow> bool" where
  "is_num (Num x) = True"
| "is_num NaN = False"
| "is_num Undefined = False"

definition all_num :: "scored_chunk list \<Rightarrow> bool" where
  "all_num xs = list_all (\<lambda>x. is_num (similarity x)) xs"

text \<open>
  What the ranker promises about its output \<open>r\<close>, given the scored input list: sorted
  in non-increasing order of similarity, every similarity at least the threshold, no more
  than \<open>topK\<close> items, and items of equal similarity in the order of the input.
\<close>

definition ranked_output :: "scored_chunk list \<Rightarrow> real \<Rightarrow> int \<Rightarrow> scored_chunk list \<Rightarrow> bool" where
  "ranked_output scored threshold topK r =
     (sorted_wrt (\<lambda>a b. js_ge (similarity a) (similarity b)) r \<and>
      (\<forall>x\<in>set r. js_ge (similarity x) (Num threshold)) \<and>
      int (length r) \<le> topK \<and>
      (\<forall>s. prefix (filter (\<lambda>x. similarity x = s) r) (filter (\<lambda>x. similarity x = s) scored)))"

definition chunk_a :: vector_chunk where
  "chunk_a = \<lparr>id' = ''a'', text' = ''Nathan discussed stress about property taxes'', embedding = [1],
     metadata = \<lparr>documentId = 1, documentName = ''Nathan_04-14.pdf'', type = Transcript, chunkIndex = 0\<rparr>\<rparr>"

definition chunk_b :: vector_chunk where
  "chunk_b = \<lparr>id' = ''b'', text' = ''Grievances are filed within 24 hours'', embedding = [1],
     metadata = \<lparr>documentId = 2, documentName = ''Grievance_Policy.pdf'', type = Policy, chunkIndex = 0\<rparr>\<rparr>"

section \<open>Errors and the environment of one query\<close>

text \<open>A JavaScript exception: an \<open>Error\<close> or a \<open>TypeError\<close>, with its message.\<close>

datatype js_error = Error string | TypeError string

fun message :: "js_error \<Rightarrow> string" where
  "message (Error m) = m"
| "message (TypeError m) = m"

text \<open>
  What a query meets outside the services: the storage, the process environment and the
  remote backends. Each call returns a value or raises (\<open>Inl\<close>).
  \<^item> \<open>getAllVectorChunks n\<close> is the result of the \<open>n\<close>-th call of
    \<open>storage.getAllVectorChunks()\<close> (a query makes at most two);
  \<^item> \<open>openai_embeddings\<close> is \<open>openai.embeddings.create\<close> followed by
    \<open>response.data.map(item => item.embedding)\<close>;
  \<^item> \<open>apiKey\<close> is \<open>process.env.OPENAI_API_KEY || process.env.VITE_OPENAI_API_KEY\<close>;
  \<^item> \<open>openai_chat query context\<close> is \<open>openai.chat.completions.create\<close> on the prompts
    built from the query and the context, followed by
    \<open>completion.choices[0]?.message?.content\<close> (\<open>None\<close> when that is \<open>undefined\<close>);
  \<^item> \<open>import_ragService\<close> is the error of \<open>await import('./ragService')\<close>, if any;
  \<^item> the other fields are the functions of \<open>FreeApiService\<close>.
\<close>

record env =
  getAllVectorChunks :: "nat \<Rightarrow> js_error + vector_chunk list"
  openai_embeddings :: "string list \<Rightarrow> js_error + real list list"
  apiKey :: "string option"
  openai_chat :: "string \<Rightarrow> string \<Rightarrow> js_error + string option"
  import_ragService :: "js_error option"
  generateHuggingFaceEmbeddings :: "string list \<Rightarrow> js_error + real list list"
  generateGroqResponse :: "string \<Rightarrow> string \<Rightarrow> js_error + string"
  generateGeminiResponse :: "string \<Rightarrow> string \<Rightarrow> js_error + string"
  generateCohereResponse :: "string \<Rightarrow> string \<Rightarrow> js_error + string"
  generateTogetherResponse :: "string \<Rightarrow> string \<Rightarrow> js_error + string"

section \<open>\<open>VectorService\<close>: embedding the query and multi-hop retrieval\<close>

definition generateEmbeddings :: "env \<Rightarrow> string list \<Rightarrow> js_error + real list list" where
  "generateEmbeddings e texts =
     (case openai_embeddings e texts of
        Inl error \<Rightarrow> Inl (Error (''Failed to generate embeddings: '' @ message error))
      | Inr embeddings \<Rightarrow> Inr embeddings)"

text \<open>\<open>embeddings[0]\<close> is \<open>undefined\<close> (\<open>None\<close>) when the backend returned no vector.\<close>

definition generateQueryEmbedding :: "env \<Rightarrow> string \<Rightarrow> js_error + real list option" where
  "generateQueryEmbedding e query =
     (case generateEmbeddings e [query] of
        Inl error \<Rightarrow> Inl error
      | Inr embeddings \<Rightarrow> Inr (case embeddings of [] \<Rightarrow> None | v # _ \<Rightarrow> Some v))"

record retrieval =
  r_transcriptChunks :: "scored_chunk list"
  r_policyChunks :: "scored_chunk list"
  r_queryEmbedding :: "real list option"

text \<open>
  With an \<open>undefined\<close> query embedding, \<open>a.reduce\<close> in \<open>cosineSimilarity\<close> raises a
  \<open>TypeError\<close> at the first chunk that is scored; every chunk is a transcript or a policy
  chunk, so that happens as soon as there is a chunk.
\<close>

definition multiHopRetrieval ::
  "env \<Rightarrow> string \<Rightarrow> vector_chunk list \<Rightarrow> int \<Rightarrow> int \<Rightarrow> js_error + retrieval" where
  "multiHopRetrieval e query chunks transcriptTopK policyTopK =
     (case generateQueryEmbedding e query of
        Inl error \<Rightarrow> Inl error
      | Inr None \<Rightarrow>
          (if length chunks = 0
           then Inr \<lparr>r_transcriptChunks = [], r_policyChunks = [], r_queryEmbedding = None\<rparr>
           else Inl (TypeError ''Cannot read properties of undefined (reading 'reduce')''))
      | Inr (Some v) \<Rightarrow>
          Inr \<lparr>r_transcriptChunks = findSimilarChunksByType_Vector v chunks Transcript transcriptTopK (7 / 10),
               r_policyChunks = findSimilarChunksByType_Vector v chunks Policy policyTopK (7 / 10),
               r_queryEmbedding = Some v\<rparr>)"

section \<open>\<open>RAGService\<close>\<close>

subsection \<open>The content-analysis fallback\<close>

definition extractKeyInfo :: "scored_chunk list \<Rightarrow> string \<Rightarrow> string" where
  "extractKeyInfo chunks query =
     (let content = toLowerCase (join '' '' (map text' chunks));
          documentNames = map (\<lambda>chunk. documentName (metadata chunk)) chunks
      in if includes' query ''transport'' \<or> includes' query ''travel'' then
           (if includes' content ''robert''
            then ''Robert has mentioned transportation challenges related to getting to work and appointments. He has discussed issues with vehicle reliability and the impact on his job at the fencing company.''
            else ''Transportation challenges have been discussed including difficulties with reliable transportation to work and appointments.'')
         else if includes' query ''session'' \<and> includes' query ''nathan'' then
           (let nathanSessions = filter (\<lambda>name. includes' (toLowerCase name) ''nathan'') documentNames
            in ''Nathan has had '' @ show_nat (length nathanSessions) @
               '' documented supervision sessions covering topics like financial stress, work situations, and coping strategies.'')
         else if includes' query ''session'' \<and> includes' query ''robert'' then
           (let robertSessions = filter (\<lambda>name. includes' (toLowerCase name) ''robert'') documentNames
            in ''Robert has had '' @ show_nat (length robertSessions) @
               '' documented supervision sessions discussing work progress, transportation, and compliance.'')
         else if includes' query ''stress'' \<or> includes' query ''anxiety'' then
           (if includes' content ''nathan''
            then ''Nathan has discussed financial stress related to property taxes ($2,000 payment) and demonstrated positive coping strategies, saying 'there's nothing wrong with being stressed, that's part of life right? It's more of how you handle your stress.'' @ [CHR 0x27]
            else ''Stress management and coping strategies have been important topics, including work-related stress and financial pressures.'')
         else if includes' query ''work'' \<or> includes' query ''employ'' then
           (if includes' content ''robert'' \<and> includes' content ''nathan''
            then ''Robert works for a fencing company and has been there about eight months with increasing responsibilities. Nathan has work-related financial stress but maintains employment. Both show different employment situations and challenges.''
            else if includes' content ''robert''
            then ''Robert works for a fencing company, has been there about eight months, gets along well with his crew, and his boss is happy with his work. The physical demands help him stay focused.''
            else if includes' content ''nathan''
            then ''Nathan has employment but faces financial stress including property tax obligations that impact his budget and stress levels.''
            else ''Employment status and work situations have been regularly discussed, including job stability and workplace challenges.'')
         else ''Multiple aspects of supervision and personal challenges have been discussed across sessions.'')"

definition extractPolicyInfo :: "scored_chunk list \<Rightarrow> string \<Rightarrow> string" where
  "extractPolicyInfo chunks query =
     (if includes' query ''grievance'' \<or> includes' query ''appeal'' then
        (if includes' query ''time'' \<or> includes' query ''deadline''
         then ''Grievance and appeal policy specifies: grievances must be submitted within 24 hours of incident using Form CC-101, Assistant Director conducts preliminary review within 72 hours, appeals filed within 5 business days, final appeal decisions issued within 15 business days.''
         else ''The grievance and appeal policy establishes procedures for participants to file complaints using Form CC-101, with Assistant Director review and appeal processes to different supervisors.'')
      else if includes' query ''program'' \<or> includes' query ''treatment'' then
        (if includes' query ''substance'' \<or> includes' query ''abuse''
         then ''Programming requirements for substance abuse cases include: mandatory participation for those with substance abuse history, group therapy 3 times weekly, individual counseling weekly, plus employment preparation, life skills development, and educational programming.''
         else ''Programming includes substance abuse treatment (group therapy, individual counseling), employment preparation (job readiness, resume building), life skills (financial literacy, anger management), and educational components (GED, vocational training). Minimum 6 hours weekdays, 4 hours weekends.'')
      else if includes' query ''time'' \<or> includes' query ''deadline''
      then ''Policy timeframes include: grievances within 24 hours, preliminary review within 72 hours, appeals within 5 business days, final decisions within 15 business days. Programming requires 6 hours minimum weekdays, 4 hours weekends.''
      else if includes' query ''check'' \<or> includes' query ''guideline''
      then ''Check-in guidelines establish procedures for regular supervision contacts, documentation requirements, and compliance monitoring protocols.''
      else ''The policy documents outline comprehensive procedures including grievance processes, programming requirements, intervention principles, and operational standards for Community Corrections.'')"

definition extractTranscriptInfo :: "scored_chunk list \<Rightarrow> string \<Rightarrow> string" where
  "extractTranscriptInfo chunks query =
     (if includes' query ''compare'' \<or> includes' query ''both''
      then ''The transcripts show different individual situations and progress patterns across supervision sessions.''
      else if includes' query ''challenge'' \<or> includes' query ''problem''
      then ''Various challenges and obstacles have been discussed including personal, work-related, and compliance issues.''
      else ''The supervision sessions document ongoing progress, challenges, and interactions between clients and case managers.'')"

definition generateGenericResponse :: "string \<Rightarrow> scored_chunk list \<Rightarrow> string" where
  "generateGenericResponse query chunks =
     (if length chunks = 0
      then ''I couldn't find specific information related to your query in the processed Community Corrections documents. Please ensure relevant documents have been uploaded and processed.''
      else
        (let transcriptCount = length (filter (\<lambda>chunk. type (metadata chunk) = Transcript) chunks);
             policyCount = length (filter (\<lambda>chunk. type (metadata chunk) = Policy) chunks)
         in if includes' query ''transport''
            then ''Transportation issues have been documented in supervision sessions, including challenges with vehicle reliability and getting to work or appointments.''
            else if includes' query ''session'' \<or> includes' query ''meeting''
            then ''Based on the processed documents, there are multiple supervision sessions documented with ongoing progress reviews and case management interactions.''
            else if includes' query ''time'' \<or> includes' query ''deadline''
            then ''The Community Corrections policies specify various timeframes including 24-hour grievance submission, 72-hour reviews, 5-day appeal windows, and 15-day final decisions.''
            else if includes' query ''program'' \<or> includes' query ''treatment''
            then ''Programming requirements include substance abuse treatment, employment preparation, life skills development, and educational components with specific time commitments.''
            else if includes' query ''policy'' \<or> includes' query ''procedure''
            then ''The policy documents outline comprehensive procedures for grievances, appeals, programming, intervention principles, and operational standards.''
            else ''Based on the available Community Corrections documents ('' @ show_nat transcriptCount @
                 '' transcript sections, '' @ show_nat policyCount @
                 '' policy sections), I found relevant content but need more specific context to provide a detailed answer.''))"

text \<open>
  \<open>cleanSourceText\<close> strips boiler-plate with regular expressions and cuts the text to 200
  characters. No statement below depends on the text of a source, so the function is a
  parameter \<open>clean\<close> of the model.
\<close>

text \<open>\<open>chunk.text.length > 300 ? chunk.text.substring(0, 300) + "..." : chunk.text\<close>\<close>

definition excerpt300 :: "string \<Rightarrow> string" where
  "excerpt300 t = (if length t > 300 then take 300 t @ ''...'' else t)"

text \<open>One entry of \<open>sources\<close>, with the given text.\<close>

definition source_of :: "scored_chunk \<Rightarrow> string \<Rightarrow> source" where
  "source_of chunk t =
     \<lparr>src_documentName = documentName (metadata chunk), src_chunkId = id' chunk, src_text = t,
      src_type = type (metadata chunk), src_similarity = similarity chunk\<rparr>"

text \<open>
  The chunks that mention a client by name in their text or in their document name
  (\<open>directNathanChunks\<close>, \<open>directRobertChunks\<close>).
\<close>

definition directChunks :: "string \<Rightarrow> scored_chunk list \<Rightarrow> scored_chunk list" where
  "directChunks name relevantChunks =
     filter (\<lambda>chunk. includes' (toLowerCase (text' chunk)) name \<or>
                     includes' (toLowerCase (documentName (metadata chunk))) name) relevantChunks"

text \<open>
  The chain of branches after the two direct matches; it sets \<open>answer\<close> and \<open>reasoning\<close>,
  which both start as the empty string.
\<close>

definition analysis_branches :: "string \<Rightarrow> scored_chunk list \<Rightarrow> string \<times> string" where
  "analysis_branches queryLower relevantChunks =
     (let topChunks = js_slice0 relevantChunks 5;
          transcriptChunks = filter (\<lambda>chunk. type (metadata chunk) = Transcript) topChunks;
          policyChunks = filter (\<lambda>chunk. type (metadata chunk) = Policy) topChunks
      in if includes' queryLower ''compare'' \<and>
            (includes' queryLower ''robert'' \<or> includes' queryLower ''nathan'') then
           (let robertInfo = filter (\<lambda>chunk. includes' (toLowerCase (text' chunk)) ''robert'') transcriptChunks;
                nathanInfo = filter (\<lambda>chunk. includes' (toLowerCase (text' chunk)) ''nathan'') transcriptChunks
            in if length robertInfo > 0 \<or> length nathanInfo > 0
               then (''Comparing Robert and Nathan: '' @ extractKeyInfo (robertInfo @ nathanInfo) queryLower,
                     ''Comparative analysis of both Robert's and Nathan's supervision transcripts.'')
               else ('''', ''''))
         else if includes' queryLower ''robert'' \<or>
                 list_ex (\<lambda>chunk. includes' (toLowerCase (text' chunk)) ''robert'') transcriptChunks then
           (let robertInfo = filter (\<lambda>chunk. includes' (toLowerCase (text' chunk)) ''robert'') transcriptChunks
            in if length robertInfo > 0
               then (''Based on Robert's supervision sessions: '' @ extractKeyInfo robertInfo queryLower,
                     ''Analysis of Robert's transcript content from supervision sessions.'')
               else ('''', ''''))
         else if includes' queryLower ''nathan'' \<or>
                 list_ex (\<lambda>chunk. includes' (toLowerCase (text' chunk)) ''nathan'') transcriptChunks then
           (let nathanInfo = filter (\<lambda>chunk. includes' (toLowerCase (text' chunk)) ''nathan'') transcriptChunks
            in if length nathanInfo > 0
               then (''Based on Nathan's supervision sessions: '' @ extractKeyInfo nathanInfo queryLower,
                     ''Analysis of Nathan's transcript content from supervision sessions.'')
               else ('''', ''''))
         else if length policyChunks > 0 then
           (''Based on the Community Corrections policy documents: '' @ extractPolicyInfo policyChunks queryLower,
            ''Analysis of relevant policy document sections.'')
         else if length transcriptChunks > 0 then
           (''Based on the supervision transcripts: '' @ extractTranscriptInfo transcriptChunks queryLower,
            ''Analysis of supervision session transcripts.'')
         else
           (generateGenericResponse queryLower relevantChunks,
            ''General content analysis using semantic similarity from processed documents.''))"

definition generateContentAnalysisResponse ::
  "(string \<Rightarrow> string) \<Rightarrow> string \<Rightarrow> scored_chunk list \<Rightarrow> rag_response" where
  "generateContentAnalysisResponse clean query relevantChunks =
     (if length relevantChunks = 0 then
        \<lparr>answer = ''I couldn't find any relevant information in the processed documents to answer your question.'',
         sources = [],
         reasoning = ''No relevant chunks found with sufficient similarity to the query.''\<rparr>
      else
        (let queryLower = toLowerCase query;
             sources' = map (\<lambda>chunk. source_of chunk (excerpt300 (text' chunk))) relevantChunks;
             directNathanChunks = directChunks ''nathan'' relevantChunks;
             directRobertChunks = directChunks ''robert'' relevantChunks
         in if includes' queryLower ''robert'' \<and> length directRobertChunks > 0 then
              \<lparr>answer = ''Based on Robert's supervision sessions: '' @ extractKeyInfo directRobertChunks queryLower,
               sources = sources' @
                 map (\<lambda>chunk. source_of chunk (clean (text' chunk))) (js_slice0 directRobertChunks 3),
               reasoning = ''Direct content analysis of Robert's transcript chunks.''\<rparr>
            else if includes' queryLower ''nathan'' \<and> length directNathanChunks > 0 then
              \<lparr>answer = ''Based on Nathan's supervision sessions: '' @ extractKeyInfo directNathanChunks queryLower,
               sources = sources' @
                 map (\<lambda>chunk. source_of chunk (clean (text' chunk))) (js_slice0 directNathanChunks 3),
               reasoning = ''Direct content analysis of Nathan's transcript chunks.''\<rparr>
            else
              (case analysis_branches queryLower relevantChunks of
                 (a, r) \<Rightarrow> \<lparr>answer = a, sources = sources', reasoning = r\<rparr>)))"

subsection \<open>Generation with the retrieved context\<close>

text \<open>
  The context block: for the chunk at position \<open>index\<close>,
  \<open>[index + 1] Document: name (type)\<close>, a line feed and the text; the blocks are joined
  by two line feeds.
\<close>

fun context_blocks :: "nat \<Rightarrow> scored_chunk list \<Rightarrow> string list" where
  "context_blocks index [] = []"
| "context_blocks index (chunk # chunks) =
     (''['' @ show_nat (index + 1) @ ''] Document: '' @ documentName (metadata chunk) @
      '' ('' @ type_name (type (metadata chunk)) @ '')'' @ [CHR 0x0A] @ text' chunk)
     # context_blocks (Suc index) chunks"

definition build_context :: "scored_chunk list \<Rightarrow> string" where
  "build_context chunks = join [CHR 0x0A, CHR 0x0A] (context_blocks 0 chunks)"

definition no_relevant_response :: rag_response where
  "no_relevant_response =
     \<lparr>answer = ''I couldn't find any relevant information in the processed documents to answer your question.'',
      sources = [],
      reasoning = ''No relevant chunks found with sufficient similarity to the query.''\<rparr>"

definition generateRAGResponse ::
  "(string \<Rightarrow> string) \<Rightarrow> env \<Rightarrow> string \<Rightarrow> scored_chunk list \<Rightarrow> scored_chunk list \<Rightarrow> rag_response" where
  "generateRAGResponse clean e query transcriptChunks policyChunks =
     (let relevant = allRelevantChunks transcriptChunks policyChunks
      in if length relevant = 0 then no_relevant_response
         else if apiKey e = None \<or> apiKey e = Some '''' \<or> apiKey e = Some ''placeholder_key''
         then generateContentAnalysisResponse clean query relevant
         else
           (case openai_chat e query (build_context relevant) of
              Inl error \<Rightarrow> generateContentAnalysisResponse clean query relevant
            | Inr content \<Rightarrow>
                \<lparr>answer =
                   (case content of
                      None \<Rightarrow> ''I apologize, but I couldn't generate a response to your question.''
                    | Some a \<Rightarrow>
                        if a = '''' then ''I apologize, but I couldn't generate a response to your question.''
                        else a),
                 sources = map (\<lambda>chunk. source_of chunk (clean (text' chunk))) relevant,
                 reasoning =
                   ''Retrieved '' @ show_nat (length relevant) @ '' relevant chunks from '' @
                   show_nat (length transcriptChunks) @ '' transcript chunks and '' @
                   show_nat (length policyChunks) @
                   '' policy chunks. Answer generated using GPT-4o with retrieved context.''\<rparr>))"

subsection \<open>\<open>processQuery\<close>\<close>

definition no_documents_response :: rag_response where
  "no_documents_response =
     \<lparr>answer = ''No documents have been indexed yet. Please upload and process some documents first.'',
      sources = [],
      reasoning = ''No vector data available for retrieval.''\<rparr>"

text \<open>\<open>allChunks.some(chunk => chunk.embedding && chunk.embedding.length > 0)\<close>\<close>

definition hasEmbeddings :: "vector_chunk list \<Rightarrow> bool" where
  "hasEmbeddings allChunks = list_ex (\<lambda>chunk. length (embedding chunk) > 0) allChunks"

text \<open>\<open>chunks.map(chunk => ({ ...chunk, similarity: 0.85 }))\<close>\<close>

definition chunksWithSimilarity :: "vector_chunk list \<Rightarrow> scored_chunk list" where
  "chunksWithSimilarity chunks = map (\<lambda>chunk. with_similarity chunk (Num (85 / 100))) chunks"

text \<open>The body of the \<open>try\<close> block of \<open>processQuery\<close>.\<close>

definition processQuery_try :: "(string \<Rightarrow> string) \<Rightarrow> env \<Rightarrow> string \<Rightarrow> js_error + rag_response" where
  "processQuery_try clean e query =
     (case getAllVectorChunks e 0 of
        Inl error \<Rightarrow> Inl error
      | Inr allChunks \<Rightarrow>
          if length allChunks = 0 then Inr no_documents_response
          else if hasEmbeddings allChunks then
            (case multiHopRetrieval e query allChunks 3 3 of
               Inl error \<Rightarrow>
                 Inr (generateContentAnalysisResponse clean query (chunksWithSimilarity allChunks))
             | Inr result \<Rightarrow>
                 Inr (generateRAGResponse clean e query (r_transcriptChunks result) (r_policyChunks result)))
          else Inr (generateContentAnalysisResponse clean query (chunksWithSimilarity allChunks)))"

text \<open>\<open>processQuery\<close> with its \<open>catch\<close> block.\<close>

definition processQuery :: "(string \<Rightarrow> string) \<Rightarrow> env \<Rightarrow> string \<Rightarrow> js_error + rag_response" where
  "processQuery clean e query =
     (case processQuery_try clean e query of
        Inr response \<Rightarrow> Inr response
      | Inl error \<Rightarrow>
          if includes' (message error) ''quota'' \<or> includes' (message error) ''429'' then
            (case getAllVectorChunks e 1 of
               Inl error2 \<Rightarrow> Inl error2
             | Inr chunks \<Rightarrow>
                 Inr (generateContentAnalysisResponse clean query (chunksWithSimilarity chunks)))
          else Inl (Error (''RAG processing failed: '' @ message error)))"

section \<open>\<open>EnhancedRAGService\<close>\<close>

text \<open>
  \<open>tryOpenAI\<close> awaits the import of \<open>./ragService\<close> and then throws; it has no \<open>return\<close>.
\<close>

definition tryOpenAI :: "env \<Rightarrow> string \<Rightarrow> string \<Rightarrow> js_error + string" where
  "tryOpenAI e query context =
     (case import_ragService e of
        Some error \<Rightarrow> Inl error
      | None \<Rightarrow> Inl (Error ''OpenAI not available''))"

text \<open>The list \<open>apis\<close>: each backend's name with the outcome of calling its \<open>fn\<close>.\<close>

definition apis :: "env \<Rightarrow> string \<Rightarrow> string \<Rightarrow> (string \<times> (js_error + string)) list" where
  "apis e query context =
     [(''OpenAI'', tryOpenAI e query context),
      (''Groq'', generateGroqResponse e query context),
      (''Google Gemini'', generateGeminiResponse e query context),
      (''Cohere'', generateCohereResponse e query context),
      (''Together AI'', generateTogetherResponse e query context)]"

text \<open>
  The loop \<open>for (const api of apis) { try { answer = await api.fn(); apiUsed = api.name;
  break } catch (error) { continue } }\<close>. The result is \<open>(answer, apiUsed, called)\<close>, where
  \<open>called\<close> lists the backends whose \<open>fn\<close> the loop has called, in order; \<open>answer\<close>
  and \<open>apiUsed\<close> stay empty when every call raises.
\<close>

fun try_apis :: "(string \<times> (js_error + string)) list \<Rightarrow> string \<times> string \<times> string list" where
  "try_apis [] = ('''', '''', [])"
| "try_apis ((name, outcome) # rest) =
     (case outcome of
        Inr a \<Rightarrow> (a, name, [name])
      | Inl error \<Rightarrow> (case try_apis rest of (a, apiUsed, called) \<Rightarrow> (a, apiUsed, name # called)))"

text \<open>The simplified content analysis of this service.\<close>

definition generateContentAnalysisResponse_Enhanced :: "string \<Rightarrow> scored_chunk list \<Rightarrow> rag_response" where
  "generateContentAnalysisResponse_Enhanced query relevantChunks =
     \<lparr>answer = ''Content analysis response based on available documents.'',
      sources = map (\<lambda>chunk. source_of chunk (take 200 (text' chunk) @ ''...'')) (js_slice0 relevantChunks 5),
      reasoning = ''Generated using content analysis fallback when APIs are unavailable.''\<rparr>"

text \<open>
  \<open>generateContentAnalysisResponse(query, allChunks)\<close> on chunks that carry no
  \<open>similarity\<close>: the property reads as \<open>undefined\<close>.
\<close>

definition unscored :: "vector_chunk list \<Rightarrow> scored_chunk list" where
  "unscored chunks = map (\<lambda>chunk. with_similarity chunk Undefined) chunks"

text \<open>
  The reasoning of a generated answer:
  \<open>Retrieved n relevant chunks. Answer generated using apiUsed API with retrieved context.\<close>
\<close>

definition attribution :: "nat \<Rightarrow> string \<Rightarrow> string" where
  "attribution n apiUsed =
     ''Retrieved '' @ show_nat n @ '' relevant chunks. Answer generated using '' @ apiUsed @
     '' API with retrieved context.''"

text \<open>The part of the \<open>try\<close> block after the two ranked lists are known.\<close>

definition generate_Enhanced :: "env \<Rightarrow> string \<Rightarrow> scored_chunk list \<Rightarrow> scored_chunk list \<Rightarrow> rag_response" where
  "generate_Enhanced e query transcriptChunks policyChunks =
     (let relevant = allRelevantChunks transcriptChunks policyChunks
      in if length relevant = 0 then no_relevant_response
         else
           (case try_apis (apis e query (build_context relevant)) of
              (a, apiUsed, called) \<Rightarrow>
                if a = '''' then generateContentAnalysisResponse_Enhanced query relevant
                else
                  \<lparr>answer = a,
                   sources = map (\<lambda>chunk. source_of chunk (excerpt300 (text' chunk))) relevant,
                   reasoning = attribution (length relevant) apiUsed\<rparr>))"

text \<open>
  The body of the \<open>try\<close> block of \<open>processQueryWithFallbacks\<close>. When the Hugging Face
  backend returns no vector, \<open>queryEmbedding[0]\<close> is \<open>undefined\<close> and scoring the first
  chunk raises inside the inner \<open>try\<close>, which falls back to content analysis.
\<close>

definition processQueryWithFallbacks_try :: "env \<Rightarrow> string \<Rightarrow> js_error + rag_response" where
  "processQueryWithFallbacks_try e query =
     (case getAllVectorChunks e 0 of
        Inl error \<Rightarrow> Inl error
      | Inr allChunks \<Rightarrow>
          if length allChunks = 0 then Inr no_documents_response
          else if hasEmbeddings allChunks then
            (case multiHopRetrieval e query allChunks 3 3 of
               Inr result \<Rightarrow>
                 Inr (generate_Enhanced e query (r_transcriptChunks result) (r_policyChunks result))
             | Inl openaiError \<Rightarrow>
                 (case generateHuggingFaceEmbeddings e [query] of
                    Inl hfError \<Rightarrow>
                      Inr (generateContentAnalysisResponse_Enhanced query (unscored allChunks))
                  | Inr [] \<Rightarrow>
                      Inr (generateContentAnalysisResponse_Enhanced query (unscored allChunks))
                  | Inr (v # _) \<Rightarrow>
                      Inr (generate_Enhanced e query
                             (findSimilarChunksByType_Enhanced v allChunks Transcript 3)
                             (findSimilarChunksByType_Enhanced v allChunks Policy 3))))
          else Inr (generateContentAnalysisResponse_Enhanced query (unscored allChunks)))"

text \<open>\<open>processQueryWithFallbacks\<close> with its \<open>catch\<close> block.\<close>

definition processQueryWithFallbacks :: "env \<Rightarrow> string \<Rightarrow> js_error + rag_response" where
  "processQueryWithFallbacks e query =
     (case processQueryWithFallbacks_try e query of
        Inr response \<Rightarrow> Inr response
      | Inl error \<Rightarrow>
          (case getAllVectorChunks e 1 of
             Inl error2 \<Rightarrow> Inl error2
           | Inr chunks \<Rightarrow>
               Inr (generateContentAnalysisResponse_Enhanced query (chunksWithSimilarity chunks))))"

section \<open>Sample environments\<close>

text \<open>A chunk that names no client, and two more chunks of Nathan's transcript.\<close>

definition chunk_c :: vector_chunk where
  "chunk_c = \<lparr>id' = ''c'', text' = ''Weekly check-in went well'', embedding = [1],
     metadata = \<lparr>documentId = 3, documentName = ''session_notes.pdf'', type = Transcript, chunkIndex = 0\<rparr>\<rparr>"

definition chunk_a2 :: vector_chunk where
  "chunk_a2 = \<lparr>id' = ''a2'', text' = ''Nathan has $2,000 in house taxes to pay'', embedding = [1],
     metadata = \<lparr>documentId = 1, documentName = ''Nathan_04-14.pdf'', type = Transcript, chunkIndex = 1\<rparr>\<rparr>"

definition chunk_a3 :: vector_chunk where
  "chunk_a3 = \<lparr>id' = ''a3'', text' = ''Nathan is trying to manage different payments'', embedding = [1],
     metadata = \<lparr>documentId = 1, documentName = ''Nathan_04-14.pdf'', type = Transcript, chunkIndex = 2\<rparr>\<rparr>"

text \<open>Every remote backend is down (no key configured); the storage holds \<open>stored\<close>.\<close>

definition env_offline :: "vector_chunk list \<Rightarrow> env" where
  "env_offline stored =
     \<lparr>getAllVectorChunks = (\<lambda>n. Inr stored),
      openai_embeddings = (\<lambda>texts. Inl (Error ''401 Incorrect API key provided'')),
      apiKey = None,
      openai_chat = (\<lambda>query context. Inl (Error ''401 Incorrect API key provided'')),
      import_ragService = None,
      generateHuggingFaceEmbeddings = (\<lambda>texts. Inl (Error ''Hugging Face API key not configured'')),
      generateGroqResponse = (\<lambda>query context. Inl (Error ''Groq API key not configured'')),
      generateGeminiResponse = (\<lambda>query context. Inl (Error ''Google API key not configured'')),
      generateCohereResponse = (\<lambda>query context. Inl (Error ''Cohere API key not configured'')),
      generateTogetherResponse = (\<lambda>query context. Inl (Error ''Together API key not configured''))\<rparr>"

text \<open>
  The embedding backend works (it returns the vector \<open>[1]\<close>) and an OpenAI key is set,
  but every generation backend raises.
\<close>

definition env_generation_down :: "vector_chunk list \<Rightarrow> env" where
  "env_generation_down stored =
     (env_offline stored)
       \<lparr>openai_embeddings := (\<lambda>texts. Inr [[1]]),
        apiKey := Some ''sk-test'',
        openai_chat := (\<lambda>query context. Inl (Error ''503 Service Unavailable''))\<rparr>"

text \<open>Three chunks of Nathan's transcript, all with the similarity 0.85.\<close>

definition nathan_chunks :: "scored_chunk list" where
  "nathan_chunks = chunksWithSimilarity [chunk_a, chunk_a2, chunk_a3]"

text \<open>As \<open>env_generation_down\<close>, but the Groq backend answers.\<close>

definition env_groq_up :: "vector_chunk list \<Rightarrow> env" where
  "env_groq_up stored =
     (env_generation_down stored)
       \<lparr>generateGroqResponse := (\<lambda>query context. Inr ''The check-in went well.'')\<rparr>"

section \<open>Verification\<close>

subsection \<open>Comparison, sorting and slicing\<close>

lemma js_ge_Num [simp]: "js_ge (Num x) (Num y) = (y \<le> x)"
  by (simp add: js_ge_def)

lemma js_gt_Num [simp]: "js_gt (Num x) (Num y) = (y < x)"
  by (simp add: js_gt_def)

lemma js_ge_NumD: "js_ge a (Num t) \<Longrightarrow> \<exists>v. a = Num v \<and> t \<le> v"
  by (cases a) (simp_all add: js_ge_def)

lemma all_num_iff: "all_num xs = (\<forall>x\<in>set xs. \<exists>v. similarity x = Num v)"
proof -
  have "is_num a = (\<exists>v. a = Num v)" for a by (cases a) simp_all
  then show ?thesis by (simp add: all_num_def list_all_iff)
qed

lemma js_insert_insort:
  assumes "\<exists>v. similarity x = Num v" "all_num ys"
  shows "js_insert by_similarity_desc x ys = insort_key (\<lambda>c. - similarity_value c) x ys"
  using assms
proof (induction ys)
  case Nil
  then show ?case by simp
next
  case (Cons y ys)
  from Cons.prems obtain v w where v: "similarity x = Num v" and w: "similarity y = Num w"
    by (auto simp: all_num_iff)
  have rest: "all_num ys" using Cons.prems by (simp add: all_num_iff)
  show ?case using Cons.IH[OF Cons.prems(1) rest] v w
    by (auto simp: by_similarity_desc_def js_sub_def similarity_value_def)
qed

lemma js_sort_sort_key:
  "all_num xs \<Longrightarrow> js_sort by_similarity_desc xs = sort_key (\<lambda>c. - similarity_value c) xs"
proof (induction xs)
  case Nil
  then show ?case by (simp add: js_sort_def)
next
  case (Cons x xs)
  have rest: "all_num xs" using Cons.prems by (simp add: all_num_iff)
  have hd: "\<exists>v. similarity x = Num v" using Cons.prems by (simp add: all_num_iff)
  have sorted_num: "all_num (sort_key (\<lambda>c. - similarity_value c) xs)"
    using rest by (simp add: all_num_iff)
  have "js_sort by_similarity_desc (x # xs) = js_insert by_similarity_desc x (js_sort by_similarity_desc xs)"
    by (simp add: js_sort_def)
  also have "\<dots> = js_insert by_similarity_desc x (sort_key (\<lambda>c. - similarity_value c) xs)"
    using Cons.IH[OF rest] by simp
  also have "\<dots> = insort_key (\<lambda>c. - similarity_value c) x (sort_key (\<lambda>c. - similarity_value c) xs)"
    by (rule js_insert_insort[OF hd sorted_num])
  finally show ?case by simp
qed

lemma set_js_insert: "set (js_insert cmp x ys) = insert x (set ys)"
  by (induction ys) auto

lemma set_js_sort: "set (js_sort cmp xs) = set xs"
  by (induction xs) (simp_all add: js_sort_def set_js_insert)

lemma length_js_insert: "length (js_insert cmp x ys) = Suc (length ys)"
  by (induction ys) auto

lemma length_js_sort: "length (js_sort cmp xs) = length xs"
  by (induction xs) (simp_all add: js_sort_def length_js_insert)

lemma prefix_js_slice0: "prefix (js_slice0 xs k) xs"
  by (simp add: js_slice0_def take_is_prefix)

lemma length_js_slice0: "0 \<le> k \<Longrightarrow> int (length (js_slice0 xs k)) \<le> k"
  by (simp add: js_slice0_def)

lemma set_js_slice0: "set (js_slice0 xs k) \<subseteq> set xs"
  by (auto simp: js_slice0_def dest: in_set_takeD)

lemma sorted_desc_sort_key:
  assumes "all_num xs"
  shows "sorted_wrt (\<lambda>a b. js_ge (similarity a) (similarity b)) (sort_key (\<lambda>c. - similarity_value c) xs)"
proof -
  have s: "sorted (map (\<lambda>c. - similarity_value c) (sort_key (\<lambda>c. - similarity_value c) xs))"
    by (rule sorted_sort_key)
  have n: "all_num (sort_key (\<lambda>c. - similarity_value c) xs)" using assms by (simp add: all_num_iff)
  have "\<And>ys. all_num ys \<Longrightarrow> sorted (map (\<lambda>c. - similarity_value c) ys) \<Longrightarrow> sorted_wrt (\<lambda>a b. js_ge (similarity a) (similarity b)) ys"
  proof -
    fix ys show "all_num ys \<Longrightarrow> sorted (map (\<lambda>c. - similarity_value c) ys) \<Longrightarrow> sorted_wrt (\<lambda>a b. js_ge (similarity a) (similarity b)) ys"
    proof (induction ys)
      case Nil then show ?case by simp
    next
      case (Cons y ys)
      have r: "all_num ys" using Cons.prems(1) by (simp add: all_num_iff)
      have "\<forall>z\<in>set ys. js_ge (similarity y) (similarity z)"
      proof
        fix z assume z: "z \<in> set ys"
        from Cons.prems(1) z obtain v w where "similarity y = Num v" "similarity z = Num w"
          by (auto simp: all_num_iff)
        moreover have "- similarity_value y \<le> - similarity_value z" using Cons.prems(2) z by auto
        ultimately show "js_ge (similarity y) (similarity z)" by (simp add: similarity_value_def)
      qed
      then show ?case using Cons.IH[OF r] Cons.prems(2) by simp
    qed
  qed
  from this[OF n s] show ?thesis .
qed

lemma sorted_wrt_prefix: "prefix xs ys \<Longrightarrow> sorted_wrt P ys \<Longrightarrow> sorted_wrt P xs"
  by (auto simp: prefix_def sorted_wrt_append)

lemma filter_prefix: "prefix xs ys \<Longrightarrow> prefix (filter P xs) (filter P ys)"
  by (auto simp: prefix_def)

lemma stable_sort_key_similarity:
  assumes "all_num xs"
  shows "filter (\<lambda>x. similarity x = s) (sort_key (\<lambda>c. - similarity_value c) xs) = filter (\<lambda>x. similarity x = s) xs"
proof (cases s)
  case (Num v)
  have "filter (\<lambda>x. similarity x = s) (sort_key (\<lambda>c. - similarity_value c) xs)
      = filter (\<lambda>x. similarity x = s) (filter (\<lambda>y. - similarity_value y = - v) (sort_key (\<lambda>c. - similarity_value c) xs))"
    unfolding filter_filter using Num by (intro filter_cong refl) (auto simp: similarity_value_def)
  also have "\<dots> = filter (\<lambda>x. similarity x = s) (filter (\<lambda>y. - similarity_value y = - v) xs)"
    by (simp only: sort_key_stable)
  also have "\<dots> = filter (\<lambda>x. similarity x = s) xs"
    unfolding filter_filter using Num by (intro filter_cong refl) (auto simp: similarity_value_def)
  finally show ?thesis .
next
  case NaN
  have "\<And>ys. all_num ys \<Longrightarrow> filter (\<lambda>x. similarity x = s) ys = []"
    using NaN by (auto simp: all_num_iff filter_empty_conv)
  moreover have "all_num (sort_key (\<lambda>c. - similarity_value c) xs)" using assms by (simp add: all_num_iff)
  ultimately show ?thesis using assms by simp
next
  case Undefined
  have "\<And>ys. all_num ys \<Longrightarrow> filter (\<lambda>x. similarity x = s) ys = []"
    using Undefined by (auto simp: all_num_iff filter_empty_conv)
  moreover have "all_num (sort_key (\<lambda>c. - similarity_value c) xs)" using assms by (simp add: all_num_iff)
  ultimately show ?thesis using assms by simp
qed

subsection \<open>The rankers\<close>

lemma all_num_filter_ge: "all_num (filter (\<lambda>item. js_ge (similarity item) (Num t)) scored)"
  by (auto simp: all_num_iff dest: js_ge_NumD)

lemma rank_pipeline:
  assumes "0 \<le> k"
  shows "ranked_output scored t k
    (js_slice0 (js_sort by_similarity_desc (filter (\<lambda>item. js_ge (similarity item) (Num t)) scored)) k)"
proof -
  let ?kept = "filter (\<lambda>item. js_ge (similarity item) (Num t)) scored"
  let ?sorted = "sort_key (\<lambda>c. - similarity_value c) ?kept"
  let ?r = "js_slice0 ?sorted k"
  have num: "all_num ?kept" by (rule all_num_filter_ge)
  have eq: "js_sort by_similarity_desc ?kept = ?sorted" by (rule js_sort_sort_key[OF num])
  have pre: "prefix ?r ?sorted" by (rule prefix_js_slice0)
  have 1: "sorted_wrt (\<lambda>a b. js_ge (similarity a) (similarity b)) ?r"
    by (rule sorted_wrt_prefix[OF pre sorted_desc_sort_key[OF num]])
  have 2: "\<forall>x\<in>set ?r. js_ge (similarity x) (Num t)"
    using set_js_slice0[of ?sorted k] by auto
  have 3: "int (length ?r) \<le> k" by (rule length_js_slice0[OF assms])
  have 4: "prefix (filter (\<lambda>x. similarity x = s) ?r) (filter (\<lambda>x. similarity x = s) scored)" for s
  proof -
    have "prefix (filter (\<lambda>x. similarity x = s) ?r) (filter (\<lambda>x. similarity x = s) ?sorted)"
      by (rule filter_prefix[OF pre])
    also have "filter (\<lambda>x. similarity x = s) ?sorted = filter (\<lambda>x. similarity x = s) ?kept"
      by (rule stable_sort_key_similarity[OF num])
    also have "\<dots> = (if js_ge s (Num t) then filter (\<lambda>x. similarity x = s) scored else [])"
      by (auto simp: filter_empty_conv intro: filter_cong)
    finally show ?thesis by (simp split: if_splits)
  qed
  show ?thesis unfolding ranked_output_def eq using 1 2 3 4 by blast
qed

lemma rank_pipeline_order:
  "sorted_wrt (\<lambda>a b. js_ge (similarity a) (similarity b))
     (js_slice0 (js_sort by_similarity_desc (filter (\<lambda>item. js_ge (similarity item) (Num t)) scored)) k) \<and>
   (\<forall>x\<in>set (js_slice0 (js_sort by_similarity_desc (filter (\<lambda>item. js_ge (similarity item) (Num t)) scored)) k).
      js_ge (similarity x) (Num t)) \<and>
   (\<forall>s. prefix
      (filter (\<lambda>x. similarity x = s)
         (js_slice0 (js_sort by_similarity_desc (filter (\<lambda>item. js_ge (similarity item) (Num t)) scored)) k))
      (filter (\<lambda>x. similarity x = s) scored))"
proof (cases "0 \<le> k")
  case True
  from rank_pipeline[OF this, of scored t] show ?thesis unfolding ranked_output_def by blast
next
  case False
  let ?xs = "js_sort by_similarity_desc (filter (\<lambda>item. js_ge (similarity item) (Num t)) scored)"
  have "ranked_output scored t (int (length ?xs)) (js_slice0 ?xs (int (length ?xs)))"
    by (rule rank_pipeline) simp
  moreover have "js_slice0 ?xs (int (length ?xs)) = ?xs" by (simp add: js_slice0_def)
  ultimately have full: "ranked_output scored t (int (length ?xs)) ?xs" by (simp only:)
  have pre: "prefix (js_slice0 ?xs k) ?xs" by (rule prefix_js_slice0)
  from full have a: "sorted_wrt (\<lambda>a b. js_ge (similarity a) (similarity b)) ?xs"
    unfolding ranked_output_def by (rule conjunct1)
  from full have b: "\<forall>x\<in>set ?xs. js_ge (similarity x) (Num t)"
    unfolding ranked_output_def by blast
  from full have c: "\<forall>s. prefix (filter (\<lambda>x. similarity x = s) ?xs) (filter (\<lambda>x. similarity x = s) scored)"
    unfolding ranked_output_def by blast
  have 1: "sorted_wrt (\<lambda>a b. js_ge (similarity a) (similarity b)) (js_slice0 ?xs k)"
    by (rule sorted_wrt_prefix[OF pre a])
  have 2: "\<forall>x\<in>set (js_slice0 ?xs k). js_ge (similarity x) (Num t)"
    using b set_js_slice0[of ?xs k] by blast
  have 3: "prefix (filter (\<lambda>x. similarity x = s) (js_slice0 ?xs k)) (filter (\<lambda>x. similarity x = s) scored)" for s
  proof -
    have "prefix (filter (\<lambda>x. similarity x = s) (js_slice0 ?xs k)) (filter (\<lambda>x. similarity x = s) ?xs)"
      by (rule filter_prefix[OF pre])
    also have "prefix (filter (\<lambda>x. similarity x = s) ?xs) (filter (\<lambda>x. similarity x = s) scored)"
      using c by blast
    finally show ?thesis .
  qed
  from 1 2 3 show ?thesis by blast
qed

text \<open>
  The order of the result, the threshold and the order of ties do not depend on the cut:
  they hold for every integer passed as \<open>topK\<close>.
\<close>

lemma findSimilarChunks_order_any_topK:
  "sorted_wrt (\<lambda>a b. js_ge (similarity a) (similarity b)) (findSimilarChunks_Vector q chunks k threshold) \<and>
   (\<forall>x\<in>set (findSimilarChunks_Vector q chunks k threshold). js_ge (similarity x) (Num threshold)) \<and>
   (\<forall>s. prefix
      (filter (\<lambda>x. similarity x = s) (findSimilarChunks_Vector q chunks k threshold))
      (filter (\<lambda>x. similarity x = s)
         (map (\<lambda>chunk. with_similarity chunk (cosineSimilarity_Vector q (embedding chunk))) chunks))) \<and>
   sorted_wrt (\<lambda>a b. js_ge (similarity a) (similarity b)) (findSimilarChunks_Demo q chunks k threshold) \<and>
   (\<forall>x\<in>set (findSimilarChunks_Demo q chunks k threshold). js_ge (similarity x) (Num threshold)) \<and>
   (\<forall>s. prefix
      (filter (\<lambda>x. similarity x = s) (findSimilarChunks_Demo q chunks k threshold))
      (filter (\<lambda>x. similarity x = s)
         (map (\<lambda>chunk. with_similarity chunk (cosineSimilarity_Demo q (embedding chunk))) chunks)))"
  unfolding findSimilarChunks_Demo_def findSimilarChunks_Vector_def Let_def
  by (intro conjI rank_pipeline_order[THEN conjunct1] rank_pipeline_order[THEN conjunct2, THEN conjunct1]
      rank_pipeline_order[THEN conjunct2, THEN conjunct2])

text \<open>
  Claim C3. For every query vector, chunk list and threshold and every count \<open>topK\<close>
  (a natural number: the callers pass 3, 5 or the defaults), the list that
  \<open>findSimilarChunks\<close> returns (in \<open>DemoVectorService\<close> and in \<open>VectorService\<close>) is
  sorted in non-increasing order of similarity, keeps items of equal similarity in the
  order of the input, holds only items whose similarity is at least the threshold, and
  has at most \<open>topK\<close> items. The order, the threshold and the order of ties hold moreover
  for every integer \<open>k\<close> passed as \<open>topK\<close>, also a negative one, which
  \<open>slice(0, k)\<close> counts from the end.
\<close>

theorem findSimilarChunks_ranked:
  fixes topK :: nat and k :: int
  shows "ranked_output
           (map (\<lambda>chunk. with_similarity chunk (cosineSimilarity_Demo q (embedding chunk))) chunks)
           threshold (int topK) (findSimilarChunks_Demo q chunks (int topK) threshold)
       \<and> ranked_output
           (map (\<lambda>chunk. with_similarity chunk (cosineSimilarity_Vector q (embedding chunk))) chunks)
           threshold (int topK) (findSimilarChunks_Vector q chunks (int topK) threshold)
       \<and> sorted_wrt (\<lambda>a b. js_ge (similarity a) (similarity b)) (findSimilarChunks_Demo q chunks k threshold)
       \<and> (\<forall>x\<in>set (findSimilarChunks_Demo q chunks k threshold). js_ge (similarity x) (Num threshold))
       \<and> (\<forall>s. prefix
            (filter (\<lambda>x. similarity x = s) (findSimilarChunks_Demo q chunks k threshold))
            (filter (\<lambda>x. similarity x = s)
               (map (\<lambda>chunk. with_similarity chunk (cosineSimilarity_Demo q (embedding chunk))) chunks)))
       \<and> sorted_wrt (\<lambda>a b. js_ge (similarity a) (similarity b)) (findSimilarChunks_Vector q chunks k threshold)
       \<and> (\<forall>x\<in>set (findSimilarChunks_Vector q chunks k threshold). js_ge (similarity x) (Num threshold))
       \<and> (\<forall>s. prefix
            (filter (\<lambda>x. similarity x = s) (findSimilarChunks_Vector q chunks k threshold))
            (filter (\<lambda>x. similarity x = s)
               (map (\<lambda>chunk. with_similarity chunk (cosineSimilarity_Vector q (embedding chunk))) chunks)))"
proof -
  have "(0::int) \<le> int topK" by simp
  from rank_pipeline[OF this]
  have "ranked_output
           (map (\<lambda>chunk. with_similarity chunk (cosineSimilarity_Demo q (embedding chunk))) chunks)
           threshold (int topK) (findSimilarChunks_Demo q chunks (int topK) threshold)
       \<and> ranked_output
           (map (\<lambda>chunk. with_similarity chunk (cosineSimilarity_Vector q (embedding chunk))) chunks)
           threshold (int topK) (findSimilarChunks_Vector q chunks (int topK) threshold)"
    by (simp add: findSimilarChunks_Demo_def findSimilarChunks_Vector_def)
  with findSimilarChunks_order_any_topK[of q chunks k threshold] show ?thesis by blast
qed

lemma with_similarity_simps [simp]:
  "similarity (with_similarity c s) = s"
  "metadata (with_similarity c s) = metadata c"
  "id' (with_similarity c s) = id' c"
  "text' (with_similarity c s) = text' c"
  "embedding (with_similarity c s) = embedding c"
  by (simp_all add: with_similarity_def vector_chunk.defs)

lemma cosine_unit [simp]:
  "cosineSimilarity_Vector [1] [1] = Num 1"
  "cosineSimilarity_Demo [1] [1] = Num 1"
  "cosineSimilarity_Enhanced [1] [1] = Num 1"
  by (simp_all add: cosineSimilarity_Vector_def cosineSimilarity_Demo_def cosineSimilarity_Enhanced_def
      js_add_def js_mul_def js_index_def js_div_by_def sum_squares_def)

text \<open>
  The ranking theorem at a concrete call: two chunks of similarity 1, \<open>topK = 1\<close>.
\<close>

theorem findSimilarChunks_ranked_witness:
  "findSimilarChunks_Vector [1] [chunk_a, chunk_b] 1 (7 / 10) = [with_similarity chunk_a (Num 1)] \<and>
   ranked_output
     (map (\<lambda>chunk. with_similarity chunk (cosineSimilarity_Vector [1] (embedding chunk))) [chunk_a, chunk_b])
     (7 / 10) 1 [with_similarity chunk_a (Num 1)]"
proof -
  have e: "findSimilarChunks_Vector [1] [chunk_a, chunk_b] (int 1) (7 / 10) = [with_similarity chunk_a (Num 1)]"
    by (simp add: findSimilarChunks_Vector_def chunk_a_def chunk_b_def js_sort_def js_slice0_def
      by_similarity_desc_def js_sub_def)
  from findSimilarChunks_ranked[where q = "[1]" and chunks = "[chunk_a, chunk_b]" and threshold = "7 / 10"
      and topK = 1 and k = 1] e
  show ?thesis by simp
qed

lemma set_sort_slice_subset: "set (js_slice0 (js_sort cmp ys) k) \<subseteq> set ys"
  using set_js_slice0[of "js_sort cmp ys" k] by (simp add: set_js_sort)

lemma set_rank_subset: "set (js_slice0 (js_sort cmp (filter P xs)) k) \<subseteq> set xs"
proof -
  have "set (js_slice0 (js_sort cmp (filter P xs)) k) \<subseteq> set (js_sort cmp (filter P xs))"
    by (rule set_js_slice0)
  also have "\<dots> \<subseteq> set xs" by (simp add: set_js_sort)
  finally show ?thesis .
qed

lemma ranked_type:
  assumes "x \<in> set (js_slice0 (js_sort cmp (filter P (map (\<lambda>chunk. with_similarity chunk (f chunk))
          (filter (\<lambda>chunk. type (metadata chunk) = ty) chunks)))) topK)"
  shows "type (metadata x) = ty"
proof -
  have "x \<in> set (map (\<lambda>chunk. with_similarity chunk (f chunk)) (filter (\<lambda>chunk. type (metadata chunk) = ty) chunks))"
    by (rule subsetD[OF set_rank_subset assms])
  then show ?thesis by auto
qed

text \<open>
  Claim C4. Every chunk that \<open>findSimilarChunksByType\<close> returns for a requested type has
  that type in its metadata, in all three services; with type \<open>transcript\<close> no chunk of
  another type is returned.
\<close>

theorem findSimilarChunksByType_category:
  "(\<forall>x\<in>set (findSimilarChunksByType_Demo q chunks ty topK threshold). type (metadata x) = ty) \<and>
   (\<forall>x\<in>set (findSimilarChunksByType_Vector q chunks ty topK threshold). type (metadata x) = ty) \<and>
   (\<forall>x\<in>set (findSimilarChunksByType_Enhanced q chunks ty topK). type (metadata x) = ty)"
proof (intro conjI ballI)
  fix x assume "x \<in> set (findSimilarChunksByType_Demo q chunks ty topK threshold)"
  then show "type (metadata x) = ty"
    unfolding findSimilarChunksByType_Demo_def findSimilarChunks_Demo_def Let_def by (rule ranked_type)
next
  fix x assume "x \<in> set (findSimilarChunksByType_Vector q chunks ty topK threshold)"
  then show "type (metadata x) = ty"
    unfolding findSimilarChunksByType_Vector_def findSimilarChunks_Vector_def Let_def by (rule ranked_type)
next
  fix x assume "x \<in> set (findSimilarChunksByType_Enhanced q chunks ty topK)"
  then show "type (metadata x) = ty"
    unfolding findSimilarChunksByType_Enhanced_def Let_def by (rule ranked_type)
qed

text \<open>
  The category theorem at a concrete call: of a transcript chunk and a policy chunk, the
  request for transcripts returns the transcript chunk only.
\<close>

theorem findSimilarChunksByType_category_witness:
  "with_similarity chunk_a (Num 1) \<in> set (findSimilarChunksByType_Vector [1] [chunk_a, chunk_b] Transcript 3 (7 / 10)) \<and>
   type (metadata (with_similarity chunk_a (Num 1))) = Transcript \<and>
   findSimilarChunksByType_Vector [1] [chunk_a, chunk_b] Transcript 3 (7 / 10) = [with_similarity chunk_a (Num 1)]"
proof -
  have e: "findSimilarChunksByType_Vector [1] [chunk_a, chunk_b] Transcript 3 (7 / 10) = [with_similarity chunk_a (Num 1)]"
    by (simp add: findSimilarChunksByType_Vector_def findSimilarChunks_Vector_def chunk_a_def chunk_b_def js_sort_def js_slice0_def
      by_similarity_desc_def js_sub_def)
  then have m: "with_similarity chunk_a (Num 1) \<in> set (findSimilarChunksByType_Vector [1] [chunk_a, chunk_b] Transcript 3 (7 / 10))"
    by simp
  from findSimilarChunksByType_category[where q="[1]" and chunks="[chunk_a, chunk_b]" and ty=Transcript and topK=3 and threshold="7 / 10"] m
  have "type (metadata (with_similarity chunk_a (Num 1))) = Transcript" by blast
  with m e show ?thesis by simp
qed

subsection \<open>Vectors of different lengths\<close>
text \<open>
  Claim C2, evaluated on the code. For the vectors \<open>[1,2,3]\<close> and \<open>[1,2]\<close> of the claim,
  \<open>VectorService.cosineSimilarity\<close> and the private copy in \<open>EnhancedRAGService\<close> return
  \<open>NaN\<close> (\<open>b[2]\<close> is \<open>undefined\<close>); with the arguments swapped they return the non-zero
  number \<open>5 / (sqrt 5 * sqrt 14)\<close>; \<open>DemoVectorService.cosineSimilarity\<close>, which tests the
  lengths first, returns 0.
\<close>

theorem cosineSimilarity_length_mismatch:
  "cosineSimilarity_Vector [1, 2, 3] [1, 2] = NaN \<and>
   cosineSimilarity_Enhanced [1, 2, 3] [1, 2] = NaN \<and>
   cosineSimilarity_Vector [1, 2] [1, 2, 3] = Num (5 / (sqrt 5 * sqrt 14)) \<and>
   cosineSimilarity_Demo [1, 2, 3] [1, 2] = Num 0"
  by (simp add: cosineSimilarity_Vector_def cosineSimilarity_Demo_def cosineSimilarity_Enhanced_def
      js_add_def js_mul_def js_index_def js_div_by_def sum_squares_def)

lemma cosineSimilarity_Demo_mismatch: "length a \<noteq> length b \<Longrightarrow> cosineSimilarity_Demo a b = Num 0"
  by (simp add: cosineSimilarity_Demo_def)

subsection \<open>Fusion\<close>

text \<open>
  Claim C5. The fusion of the two ranked lists is their concatenation, sorted stably in
  descending order of similarity, cut to the first eight: on lists whose similarities are
  numbers (as the rankers return them, see \<open>findSimilarChunksByType_all_num\<close> below) the
  code's \<open>allRelevantChunks\<close> equals \<open>fuse_spec\<close>, its result is in
  non-increasing order and has at most eight items. For transcript similarities
  \<open>[0.9, 0.4]\<close> and policy similarities \<open>[0.8, 0.2]\<close> the fused order is
  \<open>[0.9, 0.8, 0.4, 0.2]\<close>.
\<close>

theorem allRelevantChunks_fusion:
  assumes "all_num transcriptChunks" and "all_num policyChunks"
  shows "allRelevantChunks transcriptChunks policyChunks = fuse_spec transcriptChunks policyChunks \<and>
         sorted_wrt (\<lambda>a b. js_ge (similarity a) (similarity b)) (allRelevantChunks transcriptChunks policyChunks) \<and>
         length (allRelevantChunks transcriptChunks policyChunks) \<le> 8 \<and>
         map similarity
           (allRelevantChunks
              [with_similarity c1 (Num (9 / 10)), with_similarity c2 (Num (4 / 10))]
              [with_similarity c3 (Num (8 / 10)), with_similarity c4 (Num (2 / 10))])
         = [Num (9 / 10), Num (8 / 10), Num (4 / 10), Num (2 / 10)]"
proof -
  have num: "all_num (transcriptChunks @ policyChunks)"
    using assms by (auto simp: all_num_iff)
  have eq: "js_sort by_similarity_desc (transcriptChunks @ policyChunks)
          = sort_key (\<lambda>c. - similarity_value c) (transcriptChunks @ policyChunks)"
    by (rule js_sort_sort_key[OF num])
  have 1: "allRelevantChunks transcriptChunks policyChunks = fuse_spec transcriptChunks policyChunks"
    by (simp add: allRelevantChunks_def fuse_spec_def eq js_slice0_def)
  have pre: "prefix (fuse_spec transcriptChunks policyChunks)
               (sort_key (\<lambda>c. - similarity_value c) (transcriptChunks @ policyChunks))"
    by (simp add: fuse_spec_def take_is_prefix)
  have 2: "sorted_wrt (\<lambda>a b. js_ge (similarity a) (similarity b)) (fuse_spec transcriptChunks policyChunks)"
    by (rule sorted_wrt_prefix[OF pre sorted_desc_sort_key[OF num]])
  have 3: "length (fuse_spec transcriptChunks policyChunks) \<le> 8"
    by (simp add: fuse_spec_def)
  have 4: "map similarity
           (allRelevantChunks
              [with_similarity c1 (Num (9 / 10)), with_similarity c2 (Num (4 / 10))]
              [with_similarity c3 (Num (8 / 10)), with_similarity c4 (Num (2 / 10))])
         = [Num (9 / 10), Num (8 / 10), Num (4 / 10), Num (2 / 10)]"
    by (simp add: allRelevantChunks_def js_sort_def js_slice0_def by_similarity_desc_def js_sub_def)
  from 1 2 3 4 show ?thesis by simp
qed

text \<open>
  The fusion theorem at the lists of the example.
\<close>

theorem allRelevantChunks_fusion_witness:
  "all_num [with_similarity chunk_a (Num (9 / 10)), with_similarity chunk_a (Num (4 / 10))] \<and>
   all_num [with_similarity chunk_b (Num (8 / 10)), with_similarity chunk_b (Num (2 / 10))] \<and>
   allRelevantChunks
     [with_similarity chunk_a (Num (9 / 10)), with_similarity chunk_a (Num (4 / 10))]
     [with_similarity chunk_b (Num (8 / 10)), with_similarity chunk_b (Num (2 / 10))]
   = [with_similarity chunk_a (Num (9 / 10)), with_similarity chunk_b (Num (8 / 10)),
      with_similarity chunk_a (Num (4 / 10)), with_similarity chunk_b (Num (2 / 10))]"
proof -
  let ?t = "[with_similarity chunk_a (Num (9 / 10)), with_similarity chunk_a (Num (4 / 10))]"
  let ?p = "[with_similarity chunk_b (Num (8 / 10)), with_similarity chunk_b (Num (2 / 10))]"
  have t: "all_num ?t" by (simp add: all_num_def)
  have p: "all_num ?p" by (simp add: all_num_def)
  have "allRelevantChunks ?t ?p = fuse_spec ?t ?p"
    using allRelevantChunks_fusion[OF t p] by blast
  also have "\<dots> = [with_similarity chunk_a (Num (9 / 10)), with_similarity chunk_b (Num (8 / 10)),
      with_similarity chunk_a (Num (4 / 10)), with_similarity chunk_b (Num (2 / 10))]"
    by (simp add: fuse_spec_def similarity_value_def)
  finally show ?thesis using t p by simp
qed

lemma findSimilarChunksByType_all_num:
  "all_num (findSimilarChunksByType_Vector q chunks ty topK threshold)"
  "all_num (findSimilarChunksByType_Enhanced q chunks ty topK)"
  "all_num (findSimilarChunksByType_Demo q chunks ty topK threshold)"
proof -
  have "all_num (js_slice0 (js_sort cmp (filter (\<lambda>item. js_ge (similarity item) (Num t)) xs)) k)" for cmp t xs k
  proof -
    have "set (js_slice0 (js_sort cmp (filter (\<lambda>item. js_ge (similarity item) (Num t)) xs)) k)
        \<subseteq> set (filter (\<lambda>item. js_ge (similarity item) (Num t)) xs)"
      using set_js_slice0[of "js_sort cmp (filter (\<lambda>item. js_ge (similarity item) (Num t)) xs)" k]
      by (simp add: set_js_sort)
    then show ?thesis using all_num_filter_ge[of t xs] unfolding all_num_iff by blast
  qed
  then show "all_num (findSimilarChunksByType_Vector q chunks ty topK threshold)"
  "all_num (findSimilarChunksByType_Enhanced q chunks ty topK)"
  "all_num (findSimilarChunksByType_Demo q chunks ty topK threshold)"
    by (simp_all add: findSimilarChunksByType_Vector_def findSimilarChunks_Vector_def
        findSimilarChunksByType_Enhanced_def findSimilarChunksByType_Demo_def findSimilarChunks_Demo_def)
qed

subsection \<open>Keyword scoring\<close>

lemma lower_q: "toLowerCase ''What did Nathan say about stress?'' = ''what did nathan say about stress?''"
  by (simp add: toLowerCase_def lower_char_def)

lemma lower_t: "toLowerCase ''Nathan discussed stress about property taxes'' = ''nathan discussed stress about property taxes''"
  by (simp add: toLowerCase_def lower_char_def)

lemma split_q: "split_ws ''what did nathan say about stress?'' = [''what'', ''did'', ''nathan'', ''say'', ''about'', ''stress?'']"
  by (simp add: split_ws_def is_space_def)

lemma kw: "fold (\<lambda>word score. if includes' ''nathan discussed stress about property taxes'' word then score + 3 / 10 else score)
    [''what'', ''did'', ''nathan'', ''say'', ''about'', ''stress?''] (0::real) = 6 / 10"
  by simp

lemma inc1: "includes' ''what did nathan say about stress?'' ''stress''" by simp
lemma inc2: "includes' ''what did nathan say about stress?'' ''nathan''" by simp
lemma inc3: "\<not> includes' ''what did nathan say about stress?'' ''robert''" by simp
lemma inc4: "includes' ''nathan discussed stress about property taxes'' ''stress''" by simp



lemma example_score:
  "chunk_score ''What did Nathan say about stress?''
     \<lparr>id' = i, text' = ''Nathan discussed stress about property taxes'', embedding = e,
      metadata = \<lparr>documentId = d, documentName = n, type = Transcript, chunkIndex = k\<rparr>\<rparr> = 95 / 100"
  apply (simp only: chunk_score_def Let_def)
  apply (simp only: lower_q lower_t split_q vector_chunk.simps metadata.simps)
  apply (simp only: kw inc1 inc2 inc3 inc4 if_True if_False simp_thms)
  apply (simp split: if_splits)
  done

lemma chunk_score_le: "chunk_score query chunk \<le> 95 / 100"
  by (simp only: chunk_score_def Let_def min.cobounded2)

lemma js_gt_NumD: "js_gt a (Num t) \<Longrightarrow> \<exists>v. a = Num v \<and> t < v"
  by (cases a) (simp_all add: js_gt_def)

text \<open>
  Claim C7. For every query and chunk list the keyword analyzer
  \<open>DemoProcessor.findRelevantChunks\<close> returns at most five chunks, each with a score
  greater than 0.2 and at most 0.95. For the single chunk with the text
  \<open>Nathan discussed stress about property taxes\<close> and the query
  \<open>What did Nathan say about stress?\<close> the chunk is returned with similarity 0.95,
  whatever its id, embedding and document name are.
\<close>

theorem findRelevantChunks_bounds:
  "length (findRelevantChunks query chunks) \<le> 5 \<and>
   (\<forall>c\<in>set (findRelevantChunks query chunks).
      \<exists>s. similarity c = Num s \<and> 2 / 10 < s \<and> s \<le> 95 / 100) \<and>
   findRelevantChunks ''What did Nathan say about stress?''
     [\<lparr>id' = i, text' = ''Nathan discussed stress about property taxes'', embedding = e,
       metadata = \<lparr>documentId = d, documentName = n, type = Transcript, chunkIndex = k\<rparr>\<rparr>]
   = [with_similarity
        \<lparr>id' = i, text' = ''Nathan discussed stress about property taxes'', embedding = e,
         metadata = \<lparr>documentId = d, documentName = n, type = Transcript, chunkIndex = k\<rparr>\<rparr>
        (Num (95 / 100))]"
proof (intro conjI ballI)
  show "length (findRelevantChunks query chunks) \<le> 5"
    by (simp add: findRelevantChunks_def js_slice0_def)
next
  fix c assume "c \<in> set (findRelevantChunks query chunks)"
  then have "c \<in> set (filter (\<lambda>chunk. js_gt (similarity chunk) (Num (2 / 10)))
        (map (\<lambda>chunk. with_similarity chunk (Num (chunk_score query chunk))) chunks))"
    unfolding findRelevantChunks_def Let_def by (rule subsetD[OF set_sort_slice_subset])
  then obtain chunk where c: "c = with_similarity chunk (Num (chunk_score query chunk))"
    and gt: "js_gt (similarity c) (Num (2 / 10))" by auto
  from gt c have "2 / 10 < chunk_score query chunk" by simp
  with c chunk_score_le[of query chunk]
  show "\<exists>s. similarity c = Num s \<and> 2 / 10 < s \<and> s \<le> 95 / 100" by simp
next
  show "findRelevantChunks ''What did Nathan say about stress?''
     [\<lparr>id' = i, text' = ''Nathan discussed stress about property taxes'', embedding = e,
       metadata = \<lparr>documentId = d, documentName = n, type = Transcript, chunkIndex = k\<rparr>\<rparr>]
   = [with_similarity
        \<lparr>id' = i, text' = ''Nathan discussed stress about property taxes'', embedding = e,
         metadata = \<lparr>documentId = d, documentName = n, type = Transcript, chunkIndex = k\<rparr>\<rparr>
        (Num (95 / 100))]"
    by (simp add: findRelevantChunks_def example_score js_sort_def js_slice0_def)
qed

text \<open>
  The bounds at the chunk of the example: it is a member of the result, and its score
  lies in the interval.
\<close>

theorem findRelevantChunks_bounds_witness:
  "with_similarity chunk_a (Num (95 / 100)) \<in> set (findRelevantChunks ''What did Nathan say about stress?'' [chunk_a]) \<and>
   (\<exists>s. similarity (with_similarity chunk_a (Num (95 / 100))) = Num s \<and> 2 / 10 < s \<and> s \<le> 95 / 100) \<and>
   length (findRelevantChunks ''What did Nathan say about stress?'' [chunk_a]) = 1"
proof -
  have e: "findRelevantChunks ''What did Nathan say about stress?'' [chunk_a] = [with_similarity chunk_a (Num (95 / 100))]"
    unfolding chunk_a_def using findRelevantChunks_bounds by blast
  then have m: "with_similarity chunk_a (Num (95 / 100)) \<in> set (findRelevantChunks ''What did Nathan say about stress?'' [chunk_a])"
    by simp
  from findRelevantChunks_bounds[of "''What did Nathan say about stress?''" "[chunk_a]"] m
  have "\<exists>s. similarity (with_similarity chunk_a (Num (95 / 100))) = Num s \<and> 2 / 10 < s \<and> s \<le> 95 / 100"
    by blast
  with m e show ?thesis by simp
qed

subsection \<open>Rounding to a double\<close>







lemma fl_zero [simp]: "fl 0 = 0"
  by (simp add: fl_def)







subsection \<open>The rounding error of the normalisation\<close>

















lemma normalize_zero:
  assumes "\<forall>x\<in>set emb. x = 0"
  shows "\<forall>x\<in>set (normalize emb). x = 0"
proof -
  have "val \<in> set emb \<Longrightarrow> fl (val / d) = 0" for val d using assms by auto
  then show ?thesis by (auto simp: normalize_def Let_def)
qed



subsection \<open>The feature vector\<close>

lemma length_add_at [simp]: "length (add_at emb i v) = length emb"
  by (simp add: add_at_def)

lemma length_add_words [simp]: "length (add_words ws index emb) = length emb"
  by (induction ws index emb rule: add_words.induct) simp_all

lemma length_boost [simp]: "length (boost text k1 k2 i v emb) = length emb"
  by (simp add: boost_def)


lemma length_normalize [simp]: "length (normalize emb) = length emb"
  by (simp add: normalize_def Let_def)

















subsection \<open>The norm of the embedding\<close>



subsection \<open>The norm is not exactly 1\<close>








subsection \<open>The empty corpus\<close>

text \<open>
  Claim C6. When the storage returns no chunk, \<open>RAGService.processQuery\<close> and
  \<open>EnhancedRAGService.processQueryWithFallbacks\<close> return, for every query, without
  raising: the response has no sources and its answer tells the user to upload and
  process documents.
\<close>

theorem empty_corpus_guidance:
  assumes "getAllVectorChunks e 0 = Inr []"
  shows "processQuery clean e q = Inr no_documents_response \<and>
         processQueryWithFallbacks e q = Inr no_documents_response \<and>
         sources no_documents_response = [] \<and>
         includes' (answer no_documents_response) ''Please upload and process some documents''"
proof -
  have 1: "processQuery clean e q = Inr no_documents_response"
    using assms by (simp add: processQuery_def processQuery_try_def)
  have 2: "processQueryWithFallbacks e q = Inr no_documents_response"
    using assms by (simp add: processQueryWithFallbacks_def processQueryWithFallbacks_try_def)
  have 3: "sources no_documents_response = []"
    by (simp add: no_documents_response_def)
  have 4: "includes' (answer no_documents_response) ''Please upload and process some documents''"
    by (simp add: no_documents_response_def)
  from 1 2 3 4 show ?thesis by simp
qed

text \<open>
  The empty-corpus theorem at an environment whose storage is empty, for the query
  \<open>anything\<close>.
\<close>

theorem empty_corpus_guidance_witness:
  "getAllVectorChunks (env_offline []) 0 = Inr [] \<and>
   processQuery (\<lambda>t. t) (env_offline []) ''anything'' = Inr no_documents_response \<and>
   processQueryWithFallbacks (env_offline []) ''anything'' = Inr no_documents_response"
proof -
  have h: "getAllVectorChunks (env_offline []) 0 = Inr []" by (simp add: env_offline_def)
  from empty_corpus_guidance[OF h, of "\<lambda>t. t" "''anything''"] h show ?thesis by simp
qed

subsection \<open>Sources of the content-analysis response\<close>

lemma src_chunkId_source_of [simp]: "src_chunkId (source_of chunk t) = id' chunk"
  by (simp add: source_of_def)

lemma sources_direct_robert:
  assumes "length chunks > 0"
    and "includes' (toLowerCase query) ''robert''" and "length (directChunks ''robert'' chunks) > 0"
  shows "sources (generateContentAnalysisResponse clean query chunks) =
         map (\<lambda>chunk. source_of chunk (excerpt300 (text' chunk))) chunks @
         map (\<lambda>chunk. source_of chunk (clean (text' chunk))) (js_slice0 (directChunks ''robert'' chunks) 3)"
  using assms by (simp add: generateContentAnalysisResponse_def Let_def)

lemma sources_direct_nathan:
  assumes "length chunks > 0"
    and "\<not> (includes' (toLowerCase query) ''robert'' \<and> length (directChunks ''robert'' chunks) > 0)"
    and "includes' (toLowerCase query) ''nathan''" and "length (directChunks ''nathan'' chunks) > 0"
  shows "sources (generateContentAnalysisResponse clean query chunks) =
         map (\<lambda>chunk. source_of chunk (excerpt300 (text' chunk))) chunks @
         map (\<lambda>chunk. source_of chunk (clean (text' chunk))) (js_slice0 (directChunks ''nathan'' chunks) 3)"
  using assms by (auto simp add: generateContentAnalysisResponse_def Let_def)

lemma pushed_ids_repeat:
  assumes "length (directChunks name chunks) > 0"
  shows "\<not> distinct (map src_chunkId
           (map (\<lambda>chunk. source_of chunk (f chunk)) chunks @
            map (\<lambda>chunk. source_of chunk (g chunk)) (js_slice0 (directChunks name chunks) 3)))"
proof -
  from assms obtain d ds where d: "directChunks name chunks = d # ds"
    by (cases "directChunks name chunks") simp_all
  then have "d \<in> set (directChunks name chunks)" by simp
  then have in_chunks: "d \<in> set chunks" by (simp add: directChunks_def)
  have in_pushed: "d \<in> set (js_slice0 (directChunks name chunks) 3)"
    by (simp add: d js_slice0_def)
  have "id' d \<in> set (map src_chunkId (map (\<lambda>chunk. source_of chunk (f chunk)) chunks))"
    using in_chunks by force
  moreover have "id' d \<in> set (map src_chunkId
      (map (\<lambda>chunk. source_of chunk (g chunk)) (js_slice0 (directChunks name chunks) 3)))"
    using in_pushed by force
  ultimately show ?thesis by (simp only: map_append distinct_append) blast
qed

lemma entity_match_duplicates:
  assumes "length chunks > 0"
    and "(includes' (toLowerCase query) ''robert'' \<and> length (directChunks ''robert'' chunks) > 0) \<or>
         (includes' (toLowerCase query) ''nathan'' \<and> length (directChunks ''nathan'' chunks) > 0)"
  shows "\<not> distinct (map src_chunkId (sources (generateContentAnalysisResponse clean query chunks)))"
proof (cases "includes' (toLowerCase query) ''robert'' \<and> length (directChunks ''robert'' chunks) > 0")
  case True
  then show ?thesis
    using sources_direct_robert[OF assms(1), of query clean] pushed_ids_repeat[of "''robert''" chunks]
    by simp
next
  case False
  with assms(2) have n: "includes' (toLowerCase query) ''nathan''" "length (directChunks ''nathan'' chunks) > 0"
    by blast+
  show ?thesis
    using sources_direct_nathan[OF assms(1) False n, of clean] pushed_ids_repeat[OF n(2)]
    by simp
qed

lemma direct_nathan_chunks: "directChunks ''nathan'' nathan_chunks = nathan_chunks"
  by (simp add: directChunks_def nathan_chunks_def chunksWithSimilarity_def chunk_a_def chunk_a2_def
      chunk_a3_def toLowerCase_def lower_char_def)

lemma direct_robert_chunks: "directChunks ''robert'' nathan_chunks = []"
  by (simp add: directChunks_def nathan_chunks_def chunksWithSimilarity_def chunk_a_def chunk_a2_def
      chunk_a3_def toLowerCase_def lower_char_def)

lemma query_nathan: "includes' (toLowerCase ''What did Nathan say?'') ''nathan''"
  by (simp add: toLowerCase_def lower_char_def)

lemma length_nathan_chunks: "length nathan_chunks = 3"
  by (simp add: nathan_chunks_def chunksWithSimilarity_def)

lemma distinct_nathan_chunks: "distinct (map id' nathan_chunks)"
  by (simp add: nathan_chunks_def chunksWithSimilarity_def chunk_a_def chunk_a2_def chunk_a3_def)

lemma entity_match_sources:
  assumes "length chunks > 0"
    and "(includes' (toLowerCase query) ''robert'' \<and> length (directChunks ''robert'' chunks) > 0) \<or>
         (includes' (toLowerCase query) ''nathan'' \<and> length (directChunks ''nathan'' chunks) > 0)"
  shows "\<exists>name. (name = ''robert'' \<or> name = ''nathan'') \<and> length (directChunks name chunks) > 0 \<and>
           sources (generateContentAnalysisResponse clean query chunks) =
           map (\<lambda>chunk. source_of chunk (excerpt300 (text' chunk))) chunks @
           map (\<lambda>chunk. source_of chunk (clean (text' chunk))) (js_slice0 (directChunks name chunks) 3)"
proof (cases "includes' (toLowerCase query) ''robert'' \<and> length (directChunks ''robert'' chunks) > 0")
  case True
  then show ?thesis using sources_direct_robert[OF assms(1), of query clean] by blast
next
  case False
  with assms(2) have n: "includes' (toLowerCase query) ''nathan''" "length (directChunks ''nathan'' chunks) > 0"
    by blast+
  show ?thesis using sources_direct_nathan[OF assms(1) False n, of clean] n(2) by blast
qed

text \<open>
  Claim C9. There are a query and a non-empty list of at most five chunks with pairwise
  different ids for which the sources of \<open>RAGService.generateContentAnalysisResponse\<close>
  hold the same \<open>chunkId\<close> twice and have more than five entries, whatever
  \<open>cleanSourceText\<close> does. And for every query and non-empty chunk list: when the query
  names a client (\<open>robert\<close> or \<open>nathan\<close>) and a chunk matches that client, the
  sources are the map of every relevant chunk followed by up to three of the matching
  chunks, pushed onto the same list; so the list repeats a \<open>chunkId\<close> and is longer
  than the chunk list.
\<close>

theorem content_analysis_sources_repeat:
  "(\<exists>query chunks. length chunks > 0 \<and> length chunks \<le> 5 \<and> distinct (map id' chunks) \<and>
      \<not> distinct (map src_chunkId (sources (generateContentAnalysisResponse clean query chunks))) \<and>
      length (sources (generateContentAnalysisResponse clean query chunks)) > 5) \<and>
   (\<forall>query chunks. length chunks > 0 \<and>
      ((includes' (toLowerCase query) ''robert'' \<and> length (directChunks ''robert'' chunks) > 0) \<or>
       (includes' (toLowerCase query) ''nathan'' \<and> length (directChunks ''nathan'' chunks) > 0)) \<longrightarrow>
      (\<exists>name. (name = ''robert'' \<or> name = ''nathan'') \<and> length (directChunks name chunks) > 0 \<and>
         sources (generateContentAnalysisResponse clean query chunks) =
         map (\<lambda>chunk. source_of chunk (excerpt300 (text' chunk))) chunks @
         map (\<lambda>chunk. source_of chunk (clean (text' chunk))) (js_slice0 (directChunks name chunks) 3)) \<and>
      \<not> distinct (map src_chunkId (sources (generateContentAnalysisResponse clean query chunks))) \<and>
      length (sources (generateContentAnalysisResponse clean query chunks)) > length chunks)"
proof (intro conjI allI impI)
  have len: "length nathan_chunks > 0" by (simp add: length_nathan_chunks)
  have d: "length (directChunks ''nathan'' nathan_chunks) > 0"
    by (simp add: direct_nathan_chunks length_nathan_chunks)
  have nd: "\<not> distinct (map src_chunkId
      (sources (generateContentAnalysisResponse clean ''What did Nathan say?'' nathan_chunks)))"
    using query_nathan d by (intro entity_match_duplicates[OF len] disjI2 conjI)
  have "sources (generateContentAnalysisResponse clean ''What did Nathan say?'' nathan_chunks) =
         map (\<lambda>chunk. source_of chunk (excerpt300 (text' chunk))) nathan_chunks @
         map (\<lambda>chunk. source_of chunk (clean (text' chunk))) (js_slice0 (directChunks ''nathan'' nathan_chunks) 3)"
    using direct_robert_chunks by (intro sources_direct_nathan[OF len _ query_nathan d]) simp
  then have six: "length (sources (generateContentAnalysisResponse clean ''What did Nathan say?'' nathan_chunks)) > 5"
    by (simp add: direct_nathan_chunks js_slice0_def length_nathan_chunks)
  have five: "length nathan_chunks \<le> 5" by (simp add: length_nathan_chunks)
  from len five distinct_nathan_chunks nd six
  show "\<exists>query chunks. length chunks > 0 \<and> length chunks \<le> 5 \<and> distinct (map id' chunks) \<and>
      \<not> distinct (map src_chunkId (sources (generateContentAnalysisResponse clean query chunks))) \<and>
      length (sources (generateContentAnalysisResponse clean query chunks)) > 5"
    by blast
next
  fix query chunks
  assume h: "length chunks > 0 \<and>
      ((includes' (toLowerCase query) ''robert'' \<and> length (directChunks ''robert'' chunks) > 0) \<or>
       (includes' (toLowerCase query) ''nathan'' \<and> length (directChunks ''nathan'' chunks) > 0))"
  then have len: "length chunks > 0" and m: "(includes' (toLowerCase query) ''robert'' \<and> length (directChunks ''robert'' chunks) > 0) \<or>
       (includes' (toLowerCase query) ''nathan'' \<and> length (directChunks ''nathan'' chunks) > 0)"
    by blast+
  from entity_match_sources[OF len m, of clean]
  show e: "\<exists>name. (name = ''robert'' \<or> name = ''nathan'') \<and> length (directChunks name chunks) > 0 \<and>
         sources (generateContentAnalysisResponse clean query chunks) =
         map (\<lambda>chunk. source_of chunk (excerpt300 (text' chunk))) chunks @
         map (\<lambda>chunk. source_of chunk (clean (text' chunk))) (js_slice0 (directChunks name chunks) 3)" .
  show "\<not> distinct (map src_chunkId (sources (generateContentAnalysisResponse clean query chunks)))"
    by (rule entity_match_duplicates[OF len m])
  from e obtain name where p: "length (directChunks name chunks) > 0"
    and q: "sources (generateContentAnalysisResponse clean query chunks) =
         map (\<lambda>chunk. source_of chunk (excerpt300 (text' chunk))) chunks @
         map (\<lambda>chunk. source_of chunk (clean (text' chunk))) (js_slice0 (directChunks name chunks) 3)"
    by blast
  from p have "length (js_slice0 (directChunks name chunks) 3) > 0" by (simp add: js_slice0_def)
  with q show "length (sources (generateContentAnalysisResponse clean query chunks)) > length chunks"
    by simp
qed

text \<open>
  The theorem at the query \<open>What did Nathan say?\<close> and three chunks with the ids
  \<open>a\<close>, \<open>a2\<close>, \<open>a3\<close> that all mention Nathan: the chunk ids of the sources are
  \<open>a, a2, a3, a, a2, a3\<close>.
\<close>

theorem content_analysis_sources_repeat_witness:
  "length nathan_chunks = 3 \<and> distinct (map id' nathan_chunks) \<and>
   includes' (toLowerCase ''What did Nathan say?'') ''nathan'' \<and>
   directChunks ''nathan'' nathan_chunks = nathan_chunks \<and>
   map src_chunkId (sources (generateContentAnalysisResponse (\<lambda>t. t) ''What did Nathan say?'' nathan_chunks)) =
     [''a'', ''a2'', ''a3'', ''a'', ''a2'', ''a3''] \<and>
   \<not> distinct (map src_chunkId
       (sources (generateContentAnalysisResponse (\<lambda>t. t) ''What did Nathan say?'' nathan_chunks)))"
proof -
  have len: "length nathan_chunks > 0" by (simp add: length_nathan_chunks)
  have d: "length (directChunks ''nathan'' nathan_chunks) > 0"
    by (simp add: direct_nathan_chunks length_nathan_chunks)
  have h: "length nathan_chunks > 0 \<and>
      ((includes' (toLowerCase ''What did Nathan say?'') ''robert'' \<and> length (directChunks ''robert'' nathan_chunks) > 0) \<or>
       (includes' (toLowerCase ''What did Nathan say?'') ''nathan'' \<and> length (directChunks ''nathan'' nathan_chunks) > 0))"
    using len d query_nathan by blast
  from content_analysis_sources_repeat[of "\<lambda>t. t"] h
  have nd: "\<not> distinct (map src_chunkId
       (sources (generateContentAnalysisResponse (\<lambda>t. t) ''What did Nathan say?'' nathan_chunks)))"
    and ex: "\<exists>name. (name = ''robert'' \<or> name = ''nathan'') \<and> length (directChunks name nathan_chunks) > 0 \<and>
         sources (generateContentAnalysisResponse (\<lambda>t. t) ''What did Nathan say?'' nathan_chunks) =
         map (\<lambda>chunk. source_of chunk (excerpt300 (text' chunk))) nathan_chunks @
         map (\<lambda>chunk. source_of chunk (text' chunk)) (js_slice0 (directChunks name nathan_chunks) 3)"
    by blast+
  from ex direct_robert_chunks have
    "sources (generateContentAnalysisResponse (\<lambda>t. t) ''What did Nathan say?'' nathan_chunks) =
         map (\<lambda>chunk. source_of chunk (excerpt300 (text' chunk))) nathan_chunks @
         map (\<lambda>chunk. source_of chunk (text' chunk)) (js_slice0 (directChunks ''nathan'' nathan_chunks) 3)"
    by auto
  then have "map src_chunkId (sources (generateContentAnalysisResponse (\<lambda>t. t) ''What did Nathan say?'' nathan_chunks)) =
       map id' nathan_chunks @ map id' (js_slice0 nathan_chunks 3)"
    by (simp only: direct_nathan_chunks map_append map_map o_def src_chunkId_source_of)
  then have ids: "map src_chunkId (sources (generateContentAnalysisResponse (\<lambda>t. t) ''What did Nathan say?'' nathan_chunks)) =
     [''a'', ''a2'', ''a3'', ''a'', ''a2'', ''a3'']"
    by (simp add: direct_nathan_chunks js_slice0_def nathan_chunks_def chunksWithSimilarity_def
        chunk_a_def chunk_a2_def chunk_a3_def o_def)
  from length_nathan_chunks distinct_nathan_chunks query_nathan direct_nathan_chunks ids nd
  show ?thesis by blast
qed

subsection \<open>Exhausting the generation backends\<close>

lemma try_apis_all_fail:
  "\<forall>p\<in>set xs. \<exists>error. snd p = Inl error \<Longrightarrow> try_apis xs = ('''', '''', map fst xs)"
  by (induction xs rule: try_apis.induct) auto

lemma generate_Enhanced_all_fail:
  assumes "\<forall>p\<in>set (apis e query (build_context (allRelevantChunks ts ps))). \<exists>error. snd p = Inl error"
    and "length (allRelevantChunks ts ps) > 0"
  shows "generate_Enhanced e query ts ps =
         generateContentAnalysisResponse_Enhanced query (allRelevantChunks ts ps)"
  using assms(2) try_apis_all_fail[OF assms(1)]
  by (simp add: generate_Enhanced_def Let_def)

lemma content_analysis_Enhanced_answer:
  "answer (generateContentAnalysisResponse_Enhanced query chunks) \<noteq> '''' \<and>
   reasoning (generateContentAnalysisResponse_Enhanced query chunks) =
     ''Generated using content analysis fallback when APIs are unavailable.''"
  by (simp add: generateContentAnalysisResponse_Enhanced_def)

text \<open>Neither entry point raises when the storage answers.\<close>

lemma processQuery_returns:
  assumes "getAllVectorChunks e 0 = Inr allChunks"
  shows "\<exists>response. processQuery clean e query = Inr response"
  using assms
  by (auto simp: processQuery_def processQuery_try_def split: sum.splits)

lemma processQueryWithFallbacks_returns:
  assumes "getAllVectorChunks e 0 = Inr allChunks"
  shows "\<exists>response. processQueryWithFallbacks e query = Inr response"
  using assms
  by (auto simp: processQueryWithFallbacks_def processQueryWithFallbacks_try_def split: sum.splits list.splits)

text \<open>The run of \<open>RAGService.processQuery\<close> on one chunk that names no client.\<close>

lemma retrieval_c:
  "multiHopRetrieval (env_generation_down [chunk_c]) query [chunk_c] 3 3 =
   Inr \<lparr>r_transcriptChunks = [with_similarity chunk_c (Num 1)], r_policyChunks = [],
        r_queryEmbedding = Some [1]\<rparr>"
  by (simp add: multiHopRetrieval_def generateQueryEmbedding_def generateEmbeddings_def
      env_generation_down_def env_offline_def findSimilarChunksByType_Vector_def
      findSimilarChunks_Vector_def chunk_c_def js_sort_def js_slice0_def)

lemma relevant_c:
  "allRelevantChunks [with_similarity chunk_c (Num 1)] [] = [with_similarity chunk_c (Num 1)]"
  by (simp add: allRelevantChunks_def js_sort_def js_slice0_def)

lemma query_robert:
  "toLowerCase ''What about Robert?'' = ''what about robert?''"
  by (simp add: toLowerCase_def lower_char_def)

lemma direct_c:
  "directChunks ''robert'' [with_similarity chunk_c (Num 1)] = []"
  "directChunks ''nathan'' [with_similarity chunk_c (Num 1)] = []"
  by (simp_all add: directChunks_def chunk_c_def toLowerCase_def lower_char_def)

lemma branches_c:
  "analysis_branches ''what about robert?'' [with_similarity chunk_c (Num 1)] = ('''', '''')"
  by (simp add: analysis_branches_def Let_def js_slice0_def chunk_c_def toLowerCase_def lower_char_def)

lemma content_analysis_c:
  "generateContentAnalysisResponse clean ''What about Robert?'' [with_similarity chunk_c (Num 1)] =
   \<lparr>answer = '''',
    sources = [source_of (with_similarity chunk_c (Num 1)) ''Weekly check-in went well''],
    reasoning = ''''\<rparr>"
  apply (simp only: generateContentAnalysisResponse_def Let_def query_robert direct_c branches_c)
  apply (simp add: excerpt300_def chunk_c_def)
  done

text \<open>
  Claim C1, evaluated on the code. The embedding backend works, an OpenAI key is set, and
  every generation backend raises. The stored chunk names no client and the query asks
  about Robert. \<open>RAGService.processQuery\<close> returns without raising, but its answer and
  its reasoning are the empty string: in \<open>generateContentAnalysisResponse\<close> the branch
  for a query that names Robert assigns nothing when no transcript chunk mentions him.
  \<open>EnhancedRAGService.processQueryWithFallbacks\<close> on the same input returns the fixed
  content-analysis answer and reasoning.
\<close>

theorem processQuery_empty_answer:
  "processQuery (\<lambda>t. t) (env_generation_down [chunk_c]) ''What about Robert?'' =
     Inr \<lparr>answer = '''',
          sources = [source_of (with_similarity chunk_c (Num 1)) ''Weekly check-in went well''],
          reasoning = ''''\<rparr> \<and>
   processQueryWithFallbacks (env_generation_down [chunk_c]) ''What about Robert?'' =
     Inr \<lparr>answer = ''Content analysis response based on available documents.'',
          sources = [source_of (with_similarity chunk_c (Num 1)) ''Weekly check-in went well...''],
          reasoning = ''Generated using content analysis fallback when APIs are unavailable.''\<rparr>"
proof -
  have s: "getAllVectorChunks (env_generation_down [chunk_c]) 0 = Inr [chunk_c]"
    by (simp add: env_generation_down_def env_offline_def)
  have h: "hasEmbeddings [chunk_c]" by (simp add: hasEmbeddings_def chunk_c_def)
  have k: "apiKey (env_generation_down [chunk_c]) = Some ''sk-test''"
    by (simp add: env_generation_down_def env_offline_def)
  have c: "openai_chat (env_generation_down [chunk_c]) q ctx = Inl (Error ''503 Service Unavailable'')" for q ctx
    by (simp add: env_generation_down_def env_offline_def)
  have g: "generateRAGResponse (\<lambda>t. t) (env_generation_down [chunk_c]) ''What about Robert?''
             [with_similarity chunk_c (Num 1)] [] =
           generateContentAnalysisResponse (\<lambda>t. t) ''What about Robert?'' [with_similarity chunk_c (Num 1)]"
    by (simp add: generateRAGResponse_def Let_def relevant_c k c)
  have 1: "processQuery (\<lambda>t. t) (env_generation_down [chunk_c]) ''What about Robert?'' =
     Inr \<lparr>answer = '''',
          sources = [source_of (with_similarity chunk_c (Num 1)) ''Weekly check-in went well''],
          reasoning = ''''\<rparr>"
    by (simp add: processQuery_def processQuery_try_def s h retrieval_c g content_analysis_c)
  have a: "try_apis (apis (env_generation_down [chunk_c]) q ctx) =
     ('''', '''', [''OpenAI'', ''Groq'', ''Google Gemini'', ''Cohere'', ''Together AI''])" for q ctx
    by (simp add: apis_def tryOpenAI_def env_generation_down_def env_offline_def)
  have e: "generate_Enhanced (env_generation_down [chunk_c]) ''What about Robert?''
             [with_similarity chunk_c (Num 1)] [] =
           generateContentAnalysisResponse_Enhanced ''What about Robert?'' [with_similarity chunk_c (Num 1)]"
    by (simp add: generate_Enhanced_def Let_def relevant_c a)
  have ce: "generateContentAnalysisResponse_Enhanced ''What about Robert?'' [with_similarity chunk_c (Num 1)] =
     \<lparr>answer = ''Content analysis response based on available documents.'',
      sources = [source_of (with_similarity chunk_c (Num 1)) ''Weekly check-in went well...''],
      reasoning = ''Generated using content analysis fallback when APIs are unavailable.''\<rparr>"
    by (simp add: generateContentAnalysisResponse_Enhanced_def js_slice0_def chunk_c_def)
  have 2: "processQueryWithFallbacks (env_generation_down [chunk_c]) ''What about Robert?'' =
     Inr \<lparr>answer = ''Content analysis response based on available documents.'',
          sources = [source_of (with_similarity chunk_c (Num 1)) ''Weekly check-in went well...''],
          reasoning = ''Generated using content analysis fallback when APIs are unavailable.''\<rparr>"
    by (simp add: processQueryWithFallbacks_def processQueryWithFallbacks_try_def s h retrieval_c e ce)
  from 1 2 show ?thesis by simp
qed

subsection \<open>The generation cascade\<close>

lemma digit_not_space: "d < 10 \<Longrightarrow> digit d \<noteq> CHR '' ''"
proof -
  assume "d < 10"
  then have "d \<in> {0, 1, 2, 3, 4, 5, 6, 7, 8, 9}" by auto
  then show ?thesis by (auto simp: digit_def)
qed

lemma show_nat_no_space: "CHR '' '' \<notin> set (show_nat n)"
proof (induction n rule: show_nat.induct)
  case (1 n)
  show ?case
  proof (cases "n < 10")
    case True
    then show ?thesis using digit_not_space[of n] by (subst show_nat.simps) simp
  next
    case False
    have "n mod 10 < 10" by simp
    from digit_not_space[OF this] 1 False show ?thesis
      by (subst show_nat.simps) simp
  qed
qed

lemma split_at_separator:
  assumes "xs @ c # r1 = ys @ c # r2" "c \<notin> set xs" "c \<notin> set ys"
  shows "xs = ys \<and> r1 = r2"
  using assms
proof (induction xs arbitrary: ys)
  case Nil
  then show ?case by (cases ys) auto
next
  case (Cons x xs)
  then show ?case by (cases ys) auto
qed

lemma attribution_inj:
  assumes "attribution m a = attribution n b"
  shows "a = b"
proof -
  let ?r = "\<lambda>api. ''relevant chunks. Answer generated using '' @ api @ '' API with retrieved context.''"
  from assms have "show_nat m @ CHR '' '' # ?r a = show_nat n @ CHR '' '' # ?r b"
    by (simp add: attribution_def)
  from split_at_separator[OF this show_nat_no_space show_nat_no_space]
  have "?r a = ?r b" by simp
  then show ?thesis by simp
qed

lemma attribution_not_fixed:
  "attribution n a \<noteq> reasoning no_documents_response"
  "attribution n a \<noteq> reasoning no_relevant_response"
  "attribution n a \<noteq> reasoning (generateContentAnalysisResponse_Enhanced query chunks)"
  by (simp_all add: attribution_def no_documents_response_def no_relevant_response_def
      generateContentAnalysisResponse_Enhanced_def)

lemma try_apis_Inl:
  "try_apis ((name, Inl error) # rest) =
     (fst (try_apis rest), fst (snd (try_apis rest)), name # snd (snd (try_apis rest)))"
  by (simp split: prod.splits)

lemma try_apis_names: "fst (snd (try_apis xs)) \<in> insert [] (fst ` set xs)"
  by (induction xs rule: try_apis.induct) (auto split: sum.splits prod.splits)

lemma tryOpenAI_raises: "\<exists>error. tryOpenAI e query context = Inl error"
  by (cases "import_ragService e") (simp_all add: tryOpenAI_def)

lemma try_apis_apiUsed: "fst (snd (try_apis (apis e query context))) \<noteq> ''OpenAI''"
proof -
  obtain error where t: "tryOpenAI e query context = Inl error"
    using tryOpenAI_raises by blast
  let ?rest = "[(''Groq'', generateGroqResponse e query context),
      (''Google Gemini'', generateGeminiResponse e query context),
      (''Cohere'', generateCohereResponse e query context),
      (''Together AI'', generateTogetherResponse e query context)]"
  have "fst (snd (try_apis (apis e query context))) = fst (snd (try_apis ?rest))"
    unfolding apis_def t try_apis_Inl by simp
  moreover have "fst (snd (try_apis ?rest)) \<in> insert [] (fst ` set ?rest)"
    by (rule try_apis_names)
  ultimately show ?thesis by auto
qed

lemma try_apis_called: "take 2 (snd (snd (try_apis (apis e query context)))) = [''OpenAI'', ''Groq'']"
proof -
  obtain error where t: "tryOpenAI e query context = Inl error"
    using tryOpenAI_raises by blast
  show ?thesis
  proof (cases "generateGroqResponse e query context")
    case (Inl error2)
    show ?thesis unfolding apis_def t Inl try_apis_Inl by simp
  next
    case (Inr a)
    show ?thesis unfolding apis_def t Inr try_apis_Inl by simp
  qed
qed

lemma processQueryWithFallbacks_cases:
  assumes "processQueryWithFallbacks e query = Inr response"
  shows "response = no_documents_response \<or>
         (\<exists>chunks. response = generateContentAnalysisResponse_Enhanced query chunks) \<or>
         (\<exists>ts ps. response = generate_Enhanced e query ts ps)"
proof (cases "processQueryWithFallbacks_try e query")
  case (Inl error)
  with assms show ?thesis
    by (cases "getAllVectorChunks e 1") (auto simp: processQueryWithFallbacks_def)
next
  case body: (Inr r)
  with assms have eq: "response = r" by (simp add: processQueryWithFallbacks_def)
  from body obtain allChunks where s: "getAllVectorChunks e 0 = Inr allChunks"
    by (cases "getAllVectorChunks e 0") (simp_all add: processQueryWithFallbacks_try_def)
  show ?thesis
  proof (cases "length allChunks = 0")
    case True
    with body s eq show ?thesis by (simp add: processQueryWithFallbacks_try_def)
  next
    case nonempty: False
    show ?thesis
    proof (cases "hasEmbeddings allChunks")
      case False
      with body s eq nonempty show ?thesis by (auto simp: processQueryWithFallbacks_try_def)
    next
      case True
      show ?thesis
      proof (cases "multiHopRetrieval e query allChunks 3 3")
        case (Inr result)
        with body s eq nonempty True show ?thesis
          by (auto simp: processQueryWithFallbacks_try_def)
      next
        case (Inl openaiError)
        show ?thesis
        proof (cases "generateHuggingFaceEmbeddings e [query]")
          case hf: (Inl hfError)
          with body s eq nonempty True Inl show ?thesis
            by (auto simp: processQueryWithFallbacks_try_def)
        next
          case hf: (Inr queryEmbedding)
          with body s eq nonempty True Inl show ?thesis
            by (cases queryEmbedding) (auto simp: processQueryWithFallbacks_try_def)
        qed
      qed
    qed
  qed
qed

lemma generate_Enhanced_not_OpenAI:
  "reasoning (generate_Enhanced e query ts ps) \<noteq> attribution n ''OpenAI''"
proof (cases "length (allRelevantChunks ts ps) = 0")
  case True
  then show ?thesis
    using attribution_not_fixed(2)[of n "''OpenAI''"] by (simp add: generate_Enhanced_def Let_def)
next
  case False
  obtain a apiUsed called where r: "try_apis (apis e query (build_context (allRelevantChunks ts ps))) = (a, apiUsed, called)"
    by (cases "try_apis (apis e query (build_context (allRelevantChunks ts ps)))") auto
  with try_apis_apiUsed[of e query "build_context (allRelevantChunks ts ps)"]
  have u: "apiUsed \<noteq> ''OpenAI''" by simp
  show ?thesis
  proof (cases "a = ''''")
    case True
    with False r show ?thesis
      using attribution_not_fixed(3)[of n "''OpenAI''" query "allRelevantChunks ts ps"]
      by (simp add: generate_Enhanced_def Let_def)
  next
    case nonempty: False
    have "reasoning (generate_Enhanced e query ts ps) = attribution (length (allRelevantChunks ts ps)) apiUsed"
      using False r nonempty by (simp add: generate_Enhanced_def Let_def)
    with u attribution_inj show ?thesis by metis
  qed
qed

text \<open>
  Claim C10. \<open>tryOpenAI\<close> raises for every input. Therefore the cascade over \<open>apis\<close>
  never ends with \<open>apiUsed = "OpenAI"\<close>, it always calls the second backend (the
  calls start with \<open>OpenAI\<close>, \<open>Groq\<close>), and no response of
  \<open>processQueryWithFallbacks\<close> has a reasoning that attributes the answer to OpenAI,
  whatever the number of chunks it reports.
\<close>

theorem tryOpenAI_always_fails:
  "(\<exists>error. tryOpenAI e query context = Inl error) \<and>
   (case try_apis (apis e query context) of
      (a, apiUsed, called) \<Rightarrow> apiUsed \<noteq> ''OpenAI'' \<and> take 2 called = [''OpenAI'', ''Groq'']) \<and>
   (\<forall>response n. processQueryWithFallbacks e query = Inr response \<longrightarrow>
      reasoning response \<noteq> attribution n ''OpenAI'')"
proof (intro conjI allI impI)
  show "\<exists>error. tryOpenAI e query context = Inl error"
    by (rule tryOpenAI_raises)
next
  show "case try_apis (apis e query context) of
      (a, apiUsed, called) \<Rightarrow> apiUsed \<noteq> ''OpenAI'' \<and> take 2 called = [''OpenAI'', ''Groq'']"
    using try_apis_apiUsed[of e query "context"] try_apis_called[of e query "context"]
    by (cases "try_apis (apis e query context)") simp
next
  fix response n
  assume "processQueryWithFallbacks e query = Inr response"
  from processQueryWithFallbacks_cases[OF this]
  consider "response = no_documents_response"
    | chunks where "response = generateContentAnalysisResponse_Enhanced query chunks"
    | ts ps where "response = generate_Enhanced e query ts ps"
    by blast
  then show "reasoning response \<noteq> attribution n ''OpenAI''"
  proof cases
    case 1
    then show ?thesis using attribution_not_fixed(1)[of n "''OpenAI''"] by simp
  next
    case 2
    then show ?thesis using attribution_not_fixed(3)[of n "''OpenAI''" query chunks] by simp
  next
    case 3
    then show ?thesis using generate_Enhanced_not_OpenAI[of e query ts ps n] by simp
  qed
qed

text \<open>
  The cascade theorem at a run where the Groq backend answers: the response is attributed
  to Groq, and that reasoning differs from the one that would name OpenAI.
\<close>

theorem tryOpenAI_always_fails_witness:
  "processQueryWithFallbacks (env_groq_up [chunk_c]) ''How did the check-in go?'' =
     Inr \<lparr>answer = ''The check-in went well.'',
          sources = [source_of (with_similarity chunk_c (Num 1)) ''Weekly check-in went well''],
          reasoning = attribution 1 ''Groq''\<rparr> \<and>
   attribution 1 ''Groq'' \<noteq> attribution 1 ''OpenAI''"
proof -
  let ?e = "env_groq_up [chunk_c]"
  let ?q = "''How did the check-in go?''"
  have s: "getAllVectorChunks ?e 0 = Inr [chunk_c]"
    by (simp add: env_groq_up_def env_generation_down_def env_offline_def)
  have h: "hasEmbeddings [chunk_c]" by (simp add: hasEmbeddings_def chunk_c_def)
  have m: "multiHopRetrieval ?e ?q [chunk_c] 3 3 =
     Inr \<lparr>r_transcriptChunks = [with_similarity chunk_c (Num 1)], r_policyChunks = [],
          r_queryEmbedding = Some [1]\<rparr>"
    by (simp add: multiHopRetrieval_def generateQueryEmbedding_def generateEmbeddings_def
      env_groq_up_def env_generation_down_def env_offline_def findSimilarChunksByType_Vector_def
      findSimilarChunks_Vector_def chunk_c_def js_sort_def js_slice0_def)
  have a: "try_apis (apis ?e q ctx) = (''The check-in went well.'', ''Groq'', [''OpenAI'', ''Groq''])" for q ctx
    by (simp add: apis_def tryOpenAI_def env_groq_up_def env_generation_down_def env_offline_def)
  have x: "excerpt300 (text' chunk_c) = ''Weekly check-in went well''"
    by (simp add: excerpt300_def chunk_c_def)
  have g: "generate_Enhanced ?e ?q [with_similarity chunk_c (Num 1)] [] =
     \<lparr>answer = ''The check-in went well.'',
      sources = [source_of (with_similarity chunk_c (Num 1)) ''Weekly check-in went well''],
      reasoning = attribution 1 ''Groq''\<rparr>"
    by (simp add: generate_Enhanced_def Let_def relevant_c a x)
  have r: "processQueryWithFallbacks ?e ?q =
     Inr \<lparr>answer = ''The check-in went well.'',
          sources = [source_of (with_similarity chunk_c (Num 1)) ''Weekly check-in went well''],
          reasoning = attribution 1 ''Groq''\<rparr>"
    by (simp add: processQueryWithFallbacks_def processQueryWithFallbacks_try_def s h m g)
  from tryOpenAI_always_fails[of ?e ?q "''''"] r
  have "attribution 1 ''Groq'' \<noteq> attribution 1 ''OpenAI''" by force
  with r show ?thesis by simp
qed

end
